theory Spec2Isabelle
  imports Complex_Main "HOL-Library.Sublist"
begin

section \<open>JavaScript values the controllers depend on\<close>

text \<open>
  Strings are lists of characters. \<open>s.startsWith(t)\<close> is \<^term>\<open>prefix t s\<close>;
  \<open>s.includes(t)\<close> is the function below: \<open>t\<close> starts at some position of \<open>s\<close>.
\<close>

fun includes_str :: "string \<Rightarrow> string \<Rightarrow> bool" where
  "includes_str [] t = (t = [])"
| "includes_str (c # s) t = (prefix t (c # s) \<or> includes_str s t)"

text \<open>A JavaScript truthiness test on an optional string: present and not empty.\<close>

definition truthy_str :: "string option \<Rightarrow> bool" where
  "truthy_str v = (case v of None \<Rightarrow> False | Some s \<Rightarrow> s \<noteq> [])"

text \<open>
  Anything a \<open>throw\<close> or a rejected promise can carry: an \<open>Error\<close> instance (with a flag
  telling whether it is a \<open>ZodError\<close>, and its message), a string, or any other value
  (with its \<open>message\<close> property when it has one).
\<close>

datatype thrown =
    ErrorObj bool string
  | ThrownString string
  | ThrownOther "string option"

text \<open>A number that may be \<open>Infinity\<close>; credit counts are integers.\<close>

datatype jsnum = Num int | Infinity

fun Math_min :: "jsnum \<Rightarrow> int \<Rightarrow> int" where
  "Math_min Infinity n = n"
| "Math_min (Num r) n = (if r < n then r else n)"

section \<open>Data model\<close>

record team_flags =
  forceZDR :: bool
  allowZDR :: bool

text \<open>The team credit chunk (\<open>AuthCreditUsageChunk\<close>), with the fields the code reads.\<close>

record chunk =
  adjusted_credits_used :: int
  remaining_credits :: int
  total_credits_sum :: "int option"
  sub_id :: "string option"
  sub_current_period_start :: "string option"
  sub_current_period_end :: "string option"
  is_extract :: bool
  flags :: "team_flags option"
  concurrency :: "int option"

section \<open>Credit gate: \<open>withAuth\<close>, \<open>checkTeamCredits\<close>, \<open>supaCheckTeamCredits\<close>\<close>

text \<open>
  Credit counts are integer-valued doubles. The sum of two of them is the exact sum
  rounded to 53 significant bits, ties to the even significand: \<open>scale53\<close> counts the
  halvings that bring the magnitude below \<open>2^53\<close>. (A sum beyond the largest double is
  \<open>Infinity\<close> in the source and a finite integer beyond every double here; the two
  compare alike with any double.)
\<close>

function scale53 :: "nat \<Rightarrow> nat" where
  "scale53 m = (if m < 2 ^ 53 then 0 else Suc (scale53 (m div 2)))"
  by pat_completeness auto
termination
  by (relation "measure id") auto

declare scale53.simps [simp del]

definition round_double :: "int \<Rightarrow> int" where
  "round_double n =
     (let m = nat \<bar>n\<bar>; e = scale53 m; q = m div 2 ^ e; r = m mod 2 ^ e
      in if e = 0 then n
         else sgn n *
              int ((if 2 * r > 2 ^ e \<or> (2 * r = 2 ^ e \<and> odd q) then q + 1 else q) * 2 ^ e))"

definition js_add :: "int \<Rightarrow> int \<Rightarrow> int" where
  "js_add a b = round_double (a + b)"


text \<open>
  \<open>chunk.adjusted_credits_used / totalPriceCredits\<close> is a JavaScript division: a division by
  zero gives \<open>Infinity\<close>, \<open>-Infinity\<close> or \<open>NaN\<close> instead of failing. The quotient is kept exact
  here; the double that the source compares is its rounding to the nearest double, ties to
  the even significand. So the two comparisons are comparisons of the exact quotient with
  a midpoint between neighbouring doubles:
  \<^item> the double \<open>0.8\<close> is \<open>7205759403792794 / 2^53\<close>, with an even significand; a quotient
    rounds to it or above exactly when it is at least the midpoint
    \<open>14411518807585587 / 2^54\<close> to the double below;
  \<^item> a quotient rounds to a double below \<open>1\<close> exactly when it is below the midpoint
    \<open>1 - 1 / 2^54\<close> to the double below \<open>1\<close> (the tie goes to \<open>1\<close>).
\<close>

datatype jsquot = Fin rat | PosInf | NegInf | NaN

definition js_divide :: "int \<Rightarrow> int \<Rightarrow> jsquot" where
  "js_divide a b =
     (if b \<noteq> 0 then Fin (of_int a / of_int b)
      else if a > 0 then PosInf else if a < 0 then NegInf else NaN)"

fun js_ge_0_8 :: "jsquot \<Rightarrow> bool" where
  "js_ge_0_8 (Fin x) = (14411518807585587 / 2 ^ 54 \<le> x)"
| "js_ge_0_8 PosInf = True"
| "js_ge_0_8 NegInf = False"
| "js_ge_0_8 NaN = False"

fun js_lt_1 :: "jsquot \<Rightarrow> bool" where
  "js_lt_1 (Fin x) = (x < 1 - 1 / 2 ^ 54)"
| "js_lt_1 PosInf = False"
| "js_lt_1 NegInf = True"
| "js_lt_1 NaN = False"

record recharge_cfg =
  auto_recharge :: bool
  auto_recharge_threshold :: int

record check_response =
  ctc_success :: bool
  message :: string
  remainingCredits :: jsnum
  ctc_chunk :: "chunk option"

datatype notification_type = LIMIT_REACHED | APPROACHING_LIMIT

datatype billing_effect =
    SetValue string recharge_cfg nat
  | LogInfo string
  | AutoCharge chunk int
  | SendNotification string notification_type "string option" "string option" chunk

text \<open>
  The stores behind the gate; each awaited call may reject. \<open>getValue\<close> gives the cached
  text: none (\<open>None\<close>, or any falsy value), a text that \<open>JSON.parse\<close> turns into a
  configuration, or a text on which \<open>JSON.parse\<close> throws. \<open>teams_select\<close> is the query on
  the \<open>teams\<close> table with its \<open>data\<close>, \<open>setValue\<close> the write to the cache, \<open>autoCharge\<close>
  the external recharge.
\<close>

record billing_env =
  getValue :: "string \<Rightarrow> thrown + (thrown + recharge_cfg) option"
  teams_select :: "string \<Rightarrow> thrown + recharge_cfg option"
  setValue :: "string \<Rightarrow> recharge_cfg \<Rightarrow> nat \<Rightarrow> thrown option"
  autoCharge :: "chunk \<Rightarrow> int \<Rightarrow> thrown + check_response"

text \<open>
  The environment variables. \<open>ALLOWED_KEYS\<close> is kept as its UTF-16 code units, since
  \<open>trim\<close> strips white space and line terminators beyond ASCII.
\<close>

record process_env =
  USE_DB_AUTHENTICATION :: "string option"
  ALLOWED_KEYS :: "nat list option"

definition is_white_space :: "nat \<Rightarrow> bool" where
  "is_white_space c =
     (c \<in> set [0x0009, 0x000A, 0x000B, 0x000C, 0x000D, 0x0020, 0x00A0, 0x1680, 0x2028,
                0x2029, 0x202F, 0x205F, 0x3000, 0xFEFF] \<or>
      (0x2000 \<le> c \<and> c \<le> 0x200A))"

definition hasAllowedKeys :: "process_env \<Rightarrow> bool" where
  "hasAllowedKeys penv =
     (case ALLOWED_KEYS penv of None \<Rightarrow> False | Some s \<Rightarrow> \<not> list_all is_white_space s)"

definition useDbAuthentication :: "process_env \<Rightarrow> bool" where
  "useDbAuthentication penv = (USE_DB_AUTHENTICATION penv = Some ''true'')"

text \<open>
  \<open>withAuth\<close>: the wrapped function's result, or the mock when neither DB authentication
  nor an allow-list is configured; the second component is the module's warning counter.
\<close>

definition withAuth :: "process_env \<Rightarrow> nat \<Rightarrow> 'r \<Rightarrow> 'r \<Rightarrow> 'r \<times> nat" where
  "withAuth penv warningCount originalFunction mockSuccess =
     (if \<not> useDbAuthentication penv \<and> \<not> hasAllowedKeys penv
      then (mockSuccess, if warningCount < 5 then warningCount + 1 else warningCount)
      else (originalFunction, warningCount))"

text \<open>
  Reading the team's auto-recharge configuration, through the cache (lines 115 to 135):
  the configuration, or what one of the awaited calls or \<open>JSON.parse\<close> threw.
\<close>

definition recharge_config ::
  "billing_env \<Rightarrow> string \<Rightarrow> (thrown + recharge_cfg) \<times> billing_effect list" where
  "recharge_config env team_id =
     (let cacheKey = ''team_auto_recharge_'' @ team_id
      in case getValue env cacheKey of
           Inl e \<Rightarrow> (Inl e, [])
         | Inr (Some cachedData) \<Rightarrow>
             (case cachedData of
                Inl e \<Rightarrow> (Inl e, [])
              | Inr parsedData \<Rightarrow> (Inr parsedData, []))
         | Inr None \<Rightarrow>
             (case teams_select env team_id of
                Inl e \<Rightarrow> (Inl e, [])
              | Inr None \<Rightarrow>
                  (Inr \<lparr>auto_recharge = False, auto_recharge_threshold = 1000\<rparr>, [])
              | Inr (Some d) \<Rightarrow>
                  (case setValue env cacheKey d 300 of
                     Some e \<Rightarrow> (Inl e, [SetValue cacheKey d 300])
                   | None \<Rightarrow> (Inr d, [SetValue cacheKey d 300]))))"

definition totalPriceCredits :: "chunk \<Rightarrow> int" where
  "totalPriceCredits c = (case total_credits_sum c of None \<Rightarrow> 100000000 | Some t \<Rightarrow> t)"

text \<open>The comparison of the credits with the plan, from line 160 of the source on.\<close>

definition credit_decision :: "chunk \<Rightarrow> string \<Rightarrow> int \<Rightarrow> check_response \<times> billing_effect list" where
  "credit_decision c team_id credits =
     (let creditsWillBeUsed = js_add (adjusted_credits_used c) credits;
          creditUsagePercentage = js_divide (adjusted_credits_used c) (totalPriceCredits c)
      in if creditsWillBeUsed > totalPriceCredits c
         then (\<lparr>ctc_success = False,
                 message = ''Insufficient credits to perform this request. For more credits, you can upgrade your plan at https://firecrawl.dev/pricing.'',
                 remainingCredits = Num (remaining_credits c), ctc_chunk = Some c\<rparr>,
               if adjusted_credits_used c > totalPriceCredits c
               then [SendNotification team_id LIMIT_REACHED (sub_current_period_start c)
                       (sub_current_period_end c) c]
               else [])
         else (\<lparr>ctc_success = True, message = ''Sufficient credits available'',
                 remainingCredits = Num (remaining_credits c), ctc_chunk = Some c\<rparr>,
               if js_ge_0_8 creditUsagePercentage \<and> js_lt_1 creditUsagePercentage
               then [SendNotification team_id APPROACHING_LIMIT (sub_current_period_start c)
                       (sub_current_period_end c) c]
               else []))"

text \<open>The condition of the auto-recharge branch (lines 137 to 141).\<close>

definition recharge_triggered :: "recharge_cfg \<Rightarrow> chunk \<Rightarrow> bool" where
  "recharge_triggered cfg c =
     (auto_recharge cfg \<and> remaining_credits c < auto_recharge_threshold cfg \<and> \<not> is_extract c)"


definition supaCheckTeamCredits ::
  "billing_env \<Rightarrow> chunk option \<Rightarrow> string \<Rightarrow> int \<Rightarrow> (thrown + check_response) \<times> billing_effect list" where
  "supaCheckTeamCredits env chnk team_id credits =
     (if team_id = ''preview'' \<or> prefix ''preview_'' team_id \<or> prefix ''env_'' team_id
      then (Inr \<lparr>ctc_success = True, message = ''Preview team, no credits used'',
                  remainingCredits = Infinity, ctc_chunk = None\<rparr>, [])
      else
        case chnk of
          None \<Rightarrow> (Inl (ErrorObj False ''NULL ACUC passed to supaCheckTeamCredits''), [])
        | Some c \<Rightarrow>
            let cache_effects = snd (recharge_config env team_id)
            in (case fst (recharge_config env team_id) of
                 Inl e \<Rightarrow> (Inl e, cache_effects)
               | Inr cfg \<Rightarrow>
                   let autoRechargeThreshold = auto_recharge_threshold cfg
                   in if recharge_triggered cfg c
                      then
                        (let recharge_effects = cache_effects @
                               [LogInfo ''Auto-recharge triggered'',
                                AutoCharge c autoRechargeThreshold]
                         in case autoCharge env c autoRechargeThreshold of
                              Inl e \<Rightarrow> (Inl e, recharge_effects)
                            | Inr autoChargeResult \<Rightarrow>
                                if ctc_success autoChargeResult
                                then (Inr \<lparr>ctc_success = True,
                                            message = message autoChargeResult,
                                            remainingCredits = remainingCredits autoChargeResult,
                                            ctc_chunk = ctc_chunk autoChargeResult\<rparr>,
                                      recharge_effects)
                                else (Inr (fst (credit_decision c team_id credits)),
                                      recharge_effects @ snd (credit_decision c team_id credits)))
                      else (Inr (fst (credit_decision c team_id credits)),
                            cache_effects @ snd (credit_decision c team_id credits))))"


definition checkTeamCredits ::
  "process_env \<Rightarrow> nat \<Rightarrow> billing_env \<Rightarrow> chunk option \<Rightarrow> string \<Rightarrow> int \<Rightarrow>
   ((thrown + check_response) \<times> billing_effect list) \<times> nat" where
  "checkTeamCredits penv warningCount env chnk team_id credits =
     withAuth penv warningCount (supaCheckTeamCredits env chnk team_id credits)
       (Inr \<lparr>ctc_success = True, message = ''No DB, bypassed'', remainingCredits = Infinity,
              ctc_chunk = None\<rparr>, [])"

text \<open>The worker's document, with the fields the dispatch path deletes.\<close>

record document =
  doc_index :: "nat option"
  doc_provider :: "string option"
  rawHtml :: "string option"
  html :: "string option"
  markdown :: "string option"
  doc_extract :: "string option"

record v0_document =
  v0_markdown :: "string option"
  v0_rawHtml :: "string option"
  v0_content :: "string option"

datatype v0_data = V0Doc v0_document | UrlOnly string

record page_options =
  includeRawHtml :: bool
  includeHtml :: bool
  includeMarkdown :: bool
  includeExtract :: bool
  onlyMainContent :: bool

datatype schema_kind = SchemaObject | SchemaNull | SchemaNotObject

record extractor_options =
  mode :: string
  extractionSchema :: schema_kind

record internal_options =
  disableSmartWaitCache :: "bool option"
  teamId :: "string option"
  saveScrapeResultToGCS :: "bool option"
  io_zeroDataRetention :: "bool option"

record scrape_options =
  skipTlsVerification :: "bool option"

record scrape_job =
  job_url :: string
  job_mode :: string
  job_team_id :: string
  job_scrapeOptions :: scrape_options
  job_internalOptions :: internal_options
  job_origin :: string
  job_integration :: "string option"
  job_is_scrape :: bool
  job_zeroDataRetention :: bool

text \<open>
  What the v0 scrape path does to the outside world, in the order it does it. The
  timestamps of the source (\<open>Date.now()\<close>) are left out.
\<close>

datatype effect =
    Sadd string string
  | AddScrapeJob scrape_job string nat
  | QueueRemove string
  | BillTeam string "string option" nat
  | LogError string
  | CaptureException thrown
  | Billing billing_effect

record helper_result =
  success :: bool
  error :: "string option"
  data :: "v0_data option"
  returnCode :: nat

section \<open>v0 scrape: \<open>scrapeHelper\<close>\<close>

text \<open>
  The collaborators of \<open>scrapeHelper\<close> that are not part of the controller file are
  parameters: URL schema, blocklist, job priority, option conversion, the queue wait and
  the legacy document conversion. \<open>urlSchema_parse\<close> returns the parsed value
  (\<open>None\<close> when it is not a string) or throws; \<open>waitForJob\<close> resolves with the
  document (\<open>None\<close> when it is falsy) or rejects. The other awaited calls may
  reject too: \<open>getJobPriority\<close> gives the priority or what it threw, \<open>addScrapeJob\<close> and
  \<open>queue_remove\<close> (the \<open>remove\<close> of the scrape queue) give what they threw, if they did.
  The calls that act on the outside are recorded as effects when they are made.
\<close>

record helper_env =
  urlSchema_parse :: "string option \<Rightarrow> thrown + string option"
  isUrlBlocked :: "string \<Rightarrow> team_flags option \<Rightarrow> bool"
  BLOCKLISTED_URL_MESSAGE :: string
  getJobPriority :: "string \<Rightarrow> nat \<Rightarrow> thrown + nat"
  fromLegacyCombo ::
    "page_options \<Rightarrow> extractor_options \<Rightarrow> nat \<Rightarrow> string \<Rightarrow> string \<Rightarrow>
     scrape_options \<times> internal_options"
  GCS_FIRE_ENGINE_BUCKET_NAME :: "string option"
  defaultOrigin :: string
  addScrapeJob :: "scrape_job \<Rightarrow> string \<Rightarrow> nat \<Rightarrow> thrown option"
  waitForJob :: "string \<Rightarrow> nat \<Rightarrow> thrown + document option"
  queue_remove :: "string \<Rightarrow> thrown option"
  toLegacyDocument :: "document \<Rightarrow> internal_options \<Rightarrow> v0_data"

text \<open>
  The request body. \<open>pageOptions\<close> and \<open>extractorOptions\<close> carry only the fields the
  client sent; \<open>crawlerOptions\<close> is passed through unread, so it is kept as its JSON text.
\<close>

record page_options_patch =
  p_includeRawHtml :: "bool option"
  p_includeHtml :: "bool option"
  p_includeMarkdown :: "bool option"
  p_includeExtract :: "bool option"
  p_onlyMainContent :: "bool option"

record extractor_options_patch =
  p_mode :: "string option"
  p_extractionSchema :: "schema_kind option"

record scrape_body =
  url :: "string option"
  crawlerOptions :: "string option"
  pageOptions :: "page_options_patch option"
  extractorOptions :: "extractor_options_patch option"
  origin :: "string option"
  timeout :: "nat option"
  integration :: "string option"

text \<open>The \<open>catch\<close> block around \<open>waitForJob\<close>: a result to return, or the value re-thrown.\<close>

definition wait_catch :: "thrown \<Rightarrow> thrown + helper_result" where
  "wait_catch e =
     (case e of
        ErrorObj z m \<Rightarrow>
          if prefix ''Job wait'' m \<or> m = ''timeout''
          then Inr \<lparr>success = False, error = Some ''Request timed out'', data = None,
                    returnCode = 408\<rparr>
          else Inl e
      | ThrownString s \<Rightarrow>
          if includes_str s ''Error generating completions: '' \<or>
             includes_str s ''Invalid schema for function'' \<or>
             includes_str s ''LLM extraction did not match the extraction schema you provided.''
          then Inr \<lparr>success = False, error = Some s, data = None, returnCode = 500\<rparr>
          else Inl e
      | ThrownOther _ \<Rightarrow> Inl e)"

text \<open>The field deletions on a document that came back.\<close>

definition strip_doc :: "page_options \<Rightarrow> extractor_options \<Rightarrow> document \<Rightarrow> document" where
  "strip_doc pageOpts extractorOpts doc =
     (let d1 = doc\<lparr>doc_index := None, doc_provider := None\<rparr>;
          d2 = (if \<not> includeRawHtml pageOpts \<and>
                   mode extractorOpts = ''llm-extraction-from-raw-html''
                then (if truthy_str (rawHtml d1) then d1\<lparr>rawHtml := None\<rparr> else d1)
                else d1);
          d3 = (if \<not> includeHtml pageOpts
                then (if truthy_str (html d2) then d2\<lparr>html := None\<rparr> else d2)
                else d2)
      in d3)"

text \<open>The job that \<open>scrapeHelper\<close> submits for a URL.\<close>

definition scrape_job_of ::
  "helper_env \<Rightarrow> scrape_body \<Rightarrow> string \<Rightarrow> string \<Rightarrow> string \<Rightarrow> page_options \<Rightarrow>
   extractor_options \<Rightarrow> nat \<Rightarrow> scrape_job" where
  "scrape_job_of env body u team_id crawlerOpts pageOpts extractorOpts tmo =
     (let combo = fromLegacyCombo env pageOpts extractorOpts tmo crawlerOpts team_id;
          scrapeOptions = fst combo;
          internalOptions = (snd combo)\<lparr>saveScrapeResultToGCS :=
              Some (truthy_str (GCS_FIRE_ENGINE_BUCKET_NAME env))\<rparr>
      in \<lparr>job_url = u, job_mode = ''single_urls'', job_team_id = team_id,
          job_scrapeOptions = scrapeOptions, job_internalOptions = internalOptions,
          job_origin = (case origin body of None \<Rightarrow> defaultOrigin env | Some g \<Rightarrow> g),
          job_integration = integration body, job_is_scrape = True,
          job_zeroDataRetention = False\<rparr>)"

definition scrapeHelper ::
  "helper_env \<Rightarrow> string \<Rightarrow> scrape_body \<Rightarrow> string \<Rightarrow> string \<Rightarrow> page_options \<Rightarrow>
   extractor_options \<Rightarrow> nat \<Rightarrow> team_flags option \<Rightarrow> (thrown + helper_result) \<times> effect list" where
  "scrapeHelper env jobId body team_id crawlerOpts pageOpts extractorOpts tmo flgs =
     (case urlSchema_parse env (url body) of
        Inl e \<Rightarrow> (Inl e, [])
      | Inr None \<Rightarrow>
          (Inr \<lparr>success = False, error = Some ''Url is required'', data = None,
                 returnCode = 400\<rparr>, [])
      | Inr (Some u) \<Rightarrow>
          if isUrlBlocked env u flgs
          then (Inr \<lparr>success = False, error = Some (BLOCKLISTED_URL_MESSAGE env), data = None,
                      returnCode = 403\<rparr>, [])
          else
            (case getJobPriority env team_id 10 of
               Inl e \<Rightarrow> (Inl e, [])
             | Inr jobPriority \<Rightarrow>
                 let job = scrape_job_of env body u team_id crawlerOpts pageOpts extractorOpts tmo;
                     enqueue = AddScrapeJob job jobId jobPriority
                 in
                   (case addScrapeJob env job jobId jobPriority of
                      Some e \<Rightarrow> (Inl e, [enqueue])
                    | None \<Rightarrow>
                        (case waitForJob env jobId tmo of
                           Inl e \<Rightarrow> (wait_catch e, [enqueue])
                         | Inr doc \<Rightarrow>
                             (case queue_remove env jobId of
                                Some e \<Rightarrow> (Inl e, [enqueue, QueueRemove jobId])
                              | None \<Rightarrow>
                                  (case doc of
                                     None \<Rightarrow>
                                       (Inr \<lparr>success = True, error = Some ''No page found'',
                                              data = None, returnCode = 200\<rparr>,
                                        [enqueue, QueueRemove jobId])
                                   | Some d \<Rightarrow>
                                       (Inr \<lparr>success = True, error = None,
                                              data = Some (toLegacyDocument env
                                                (strip_doc pageOpts extractorOpts d)
                                                (job_internalOptions job)),
                                              returnCode = 200\<rparr>,
                                        [enqueue, QueueRemove jobId])))))))"

section \<open>v0 scrape: \<open>scrapeController\<close>\<close>

datatype auth_result = AuthFailed nat string | AuthOk string "chunk option"

datatype response_body = ErrorBody string | ResultBody helper_result

record http_response =
  status :: nat
  body :: response_body

text \<open>
  What the controller reads from outside: authentication, the defaults of
  \<open>lib/default-values\<close>, the credit gate's stores, the job id drawn by \<open>uuidv4\<close>, and
  whether the two detached promises (\<open>sadd\<close> and \<open>billTeam\<close>) reject.
\<close>

record scrape_env =
  helper :: helper_env
  authenticateUser :: auth_result
  sadd_rejects :: "thrown option"
  defaultPageOptions :: page_options
  defaultExtractorOptions :: extractor_options
  defaultTimeout :: nat
  process :: process_env
  warningCount :: nat
  billing :: billing_env
  uuidv4 :: string
  billTeam_rejects :: "thrown option"

definition merge_pageOptions :: "page_options \<Rightarrow> page_options_patch option \<Rightarrow> page_options" where
  "merge_pageOptions d p =
     (case p of
        None \<Rightarrow> d
      | Some q \<Rightarrow>
          \<lparr>includeRawHtml = (case p_includeRawHtml q of None \<Rightarrow> includeRawHtml d | Some b \<Rightarrow> b),
           includeHtml = (case p_includeHtml q of None \<Rightarrow> includeHtml d | Some b \<Rightarrow> b),
           includeMarkdown = (case p_includeMarkdown q of None \<Rightarrow> includeMarkdown d | Some b \<Rightarrow> b),
           includeExtract = (case p_includeExtract q of None \<Rightarrow> includeExtract d | Some b \<Rightarrow> b),
           onlyMainContent = (case p_onlyMainContent q of None \<Rightarrow> onlyMainContent d | Some b \<Rightarrow> b)\<rparr>)"

definition merge_extractorOptions ::
  "extractor_options \<Rightarrow> extractor_options_patch option \<Rightarrow> extractor_options" where
  "merge_extractorOptions d p =
     (case p of
        None \<Rightarrow> d
      | Some q \<Rightarrow>
          \<lparr>mode = (case p_mode q of None \<Rightarrow> mode d | Some m \<Rightarrow> m),
           extractionSchema =
             (case p_extractionSchema q of None \<Rightarrow> extractionSchema d | Some k \<Rightarrow> k)\<rparr>)"

definition chunk_flags :: "chunk option \<Rightarrow> team_flags option" where
  "chunk_flags chnk = (case chnk of None \<Rightarrow> None | Some c \<Rightarrow> flags c)"

definition chunk_forceZDR :: "chunk option \<Rightarrow> bool" where
  "chunk_forceZDR chnk = (case chunk_flags chnk of None \<Rightarrow> False | Some f \<Rightarrow> forceZDR f)"

definition chunk_sub_id :: "chunk option \<Rightarrow> string option" where
  "chunk_sub_id chnk = (case chnk of None \<Rightarrow> None | Some c \<Rightarrow> sub_id c)"

text \<open>The outer \<open>catch\<close> of the controller: always status 500.\<close>

definition catch_response :: "thrown \<Rightarrow> http_response" where
  "catch_response e =
     \<lparr>status = 500,
      body = ErrorBody
        (case e of
           ErrorObj z m \<Rightarrow> if z then ''Invalid URL'' else m
         | ThrownString s \<Rightarrow> s
         | ThrownOther None \<Rightarrow> ''Internal Server Error''
         | ThrownOther (Some m) \<Rightarrow> m)\<rparr>"

text \<open>The deletions on \<open>result.data\<close> before the response is written.\<close>

definition strip_response_data :: "page_options \<Rightarrow> v0_data option \<Rightarrow> v0_data option" where
  "strip_response_data pageOpts d =
     (case d of
        Some (V0Doc doc) \<Rightarrow>
          (let d1 = (if \<not> includeRawHtml pageOpts \<and> truthy_str (v0_rawHtml doc)
                     then doc\<lparr>v0_rawHtml := None\<rparr> else doc);
               d2 = (if includeExtract pageOpts \<and> \<not> includeMarkdown pageOpts \<and>
                        truthy_str (v0_markdown d1)
                     then d1\<lparr>v0_markdown := None\<rparr> else d1)
           in Some (V0Doc d2))
      | _ \<Rightarrow> d)"

text \<open>
  The controller in three parts, in the order of the source: everything before the call
  of \<open>scrapeHelper\<close> (it ends with a response, or with the arguments of the call), the
  call, and everything after it.
\<close>

record helper_call =
  hc_team_id :: string
  hc_chunk :: "chunk option"
  hc_crawlerOptions :: string
  hc_pageOptions :: page_options
  hc_extractorOptions :: extractor_options
  hc_timeout :: nat
  hc_earlyReturn :: bool
  hc_effects :: "effect list"

definition scrape_admission ::
  "scrape_env \<Rightarrow> scrape_body \<Rightarrow> (http_response \<times> effect list) + helper_call" where
  "scrape_admission env req =
     (case authenticateUser env of
        AuthFailed st err \<Rightarrow> Inl (\<lparr>status = st, body = ErrorBody err\<rparr>, [])
      | AuthOk team_id chnk \<Rightarrow>
          if chunk_forceZDR chnk
          then Inl (\<lparr>status = 400, body = ErrorBody
                   ''Your team has zero data retention enabled. This is not supported on the v0 API. Please update your code to use the v1 API.''\<rparr>, [])
          else
            let sadd = Sadd ''teams_using_v0'' team_id #
                  (case sadd_rejects env of
                     None \<Rightarrow> []
                   | Some _ \<Rightarrow> [LogError ''Failed to add team to teams_using_v0'']);
                crawlerOpts = (case crawlerOptions req of None \<Rightarrow> ''{}'' | Some c \<Rightarrow> c);
                pageOpts = merge_pageOptions (defaultPageOptions env) (pageOptions req);
                extractorOpts =
                  merge_extractorOptions (defaultExtractorOptions env) (extractorOptions req);
                tmo = (case timeout req of None \<Rightarrow> defaultTimeout env | Some t \<Rightarrow> t);
                llm = includes_str (mode extractorOpts) ''llm-extraction''
            in
              if llm \<and> extractionSchema extractorOpts \<noteq> SchemaObject
              then Inl (\<lparr>status = 400, body = ErrorBody
                       ''extractorOptions.extractionSchema must be an object if llm-extraction mode is specified''\<rparr>,
                     sadd)
              else
                let pageOpts' = (if llm then pageOpts\<lparr>onlyMainContent := True\<rparr> else pageOpts);
                    tmo' = (if llm then (case timeout req of None \<Rightarrow> 90000 | Some t \<Rightarrow> t)
                            else tmo);
                    earlyReturn = False;
                    chk = fst (checkTeamCredits (process env) (warningCount env) (billing env)
                                 chnk team_id 1);
                    gate_effects = map Billing (snd chk)
                in
                  (case fst chk of
                     Inl e \<Rightarrow>
                       Inl (\<lparr>status = 500, body = ErrorBody
                              ''Error checking team credits. Please contact zardam@dubit.live for help.''\<rparr>,
                            sadd @ gate_effects @ [LogError ''credit check''])
                   | Inr r \<Rightarrow>
                       if \<not> ctc_success r
                       then Inl (\<lparr>status = 402, body = ErrorBody
                              ''Insufficient credits. For more credits, you can upgrade your plan at https://firecrawl.dev/pricing''\<rparr>,
                            sadd @ gate_effects)
                       else Inr \<lparr>hc_team_id = team_id, hc_chunk = chnk,
                                 hc_crawlerOptions = crawlerOpts, hc_pageOptions = pageOpts',
                                 hc_extractorOptions = extractorOpts, hc_timeout = tmo',
                                 hc_earlyReturn = earlyReturn,
                                 hc_effects = sadd @ gate_effects\<rparr>))"

definition helper_outcome ::
  "scrape_env \<Rightarrow> scrape_body \<Rightarrow> helper_call \<Rightarrow> (thrown + helper_result) \<times> effect list" where
  "helper_outcome env req c =
     scrapeHelper (helper env) (uuidv4 env) req (hc_team_id c) (hc_crawlerOptions c)
       (hc_pageOptions c) (hc_extractorOptions c) (hc_timeout c) (chunk_flags (hc_chunk c))"

text \<open>
  After the call. \<open>billTeam\<close> returns a promise that the controller does not await; its
  rejection only reaches the \<open>catch\<close> handler attached to it, which logs. The token
  count and the elapsed time that the source computes here are not used afterwards and
  are left out.
\<close>

definition scrape_completion ::
  "scrape_env \<Rightarrow> helper_call \<Rightarrow> (thrown + helper_result) \<times> effect list \<Rightarrow>
   http_response option \<times> effect list" where
  "scrape_completion env c outcome =
     (case fst outcome of
        Inl e \<Rightarrow>
          (Some (catch_response e),
           hc_effects c @ snd outcome @ [CaptureException e, LogError ''Scrape error occcurred''])
      | Inr result \<Rightarrow>
          let creditsPerLLMExtract = 4;
              creditsToBeBilled =
                (if includes_str (mode (hc_extractorOptions c)) ''llm-extraction''
                 then 1 + creditsPerLLMExtract else 1);
              billed =
                (if creditsToBeBilled > 0
                 then BillTeam (hc_team_id c) (chunk_sub_id (hc_chunk c)) creditsToBeBilled #
                      (case billTeam_rejects env of
                         None \<Rightarrow> []
                       | Some _ \<Rightarrow> [LogError ''Failed to bill team''])
                 else []);
              response =
                \<lparr>status = returnCode result,
                 body = ResultBody
                   (result\<lparr>data := strip_response_data (hc_pageOptions c) (data result)\<rparr>)\<rparr>
          in
            if success result
            then (if hc_earlyReturn c then (None, hc_effects c @ snd outcome)
                  else (Some response, hc_effects c @ snd outcome @ billed))
            else (Some response, hc_effects c @ snd outcome))"

definition scrapeController ::
  "scrape_env \<Rightarrow> scrape_body \<Rightarrow> http_response option \<times> effect list" where
  "scrapeController env req =
     (case scrape_admission env req of
        Inl early \<Rightarrow> (Some (fst early), snd early)
      | Inr c \<Rightarrow> scrape_completion env c (helper_outcome env req c))"

text \<open>The calls of \<open>billTeam\<close> among the effects: team, subscription and credits.\<close>

fun bill_calls :: "effect list \<Rightarrow> (string \<times> string option \<times> nat) list" where
  "bill_calls [] = []"
| "bill_calls (BillTeam t s n # es) = (t, s, n) # bill_calls es"
| "bill_calls (_ # es) = bill_calls es"

section \<open>v1 crawl: \<open>crawlController\<close>\<close>

text \<open>
  The validated request body. \<open>crawlerOptions\<close> of the source is the body without
  \<open>url\<close> and \<open>scrapeOptions\<close>, so the body is the record of the crawler options
  extended by these two fields.
\<close>

record crawler_options =
  includePaths :: "string list option"
  excludePaths :: "string list option"
  limit :: int
  maxConcurrency :: "int option"
  webhook :: "string option"
  zeroDataRetention :: "bool option"
  crawl_origin :: "string option"
  crawl_integration :: "string option"

record crawl_request = crawler_options +
  crawl_url :: string
  crawl_scrapeOptions :: scrape_options

text \<open>
  The legacy shape of the crawler options (\<open>controllers/v1/types\<close>), with the two
  fields the controller and the specification refer to: the page limit and the delay.
\<close>

record legacy_crawler_options =
  legacy_limit :: int
  delay :: "int option"

record stored_crawl =
  originUrl :: string
  sc_crawlerOptions :: legacy_crawler_options
  sc_scrapeOptions :: scrape_options
  sc_internalOptions :: internal_options
  sc_team_id :: string
  sc_maxConcurrency :: "int option"
  robots :: "string option"
  cancelled :: "bool option"
  sc_zeroDataRetention :: "bool option"

record kickoff_job =
  kj_url :: string
  kj_mode :: string
  kj_team_id :: string
  kj_crawlerOptions :: crawler_options
  kj_scrapeOptions :: scrape_options
  kj_internalOptions :: internal_options
  kj_origin :: "string option"
  kj_integration :: "string option"
  kj_crawl_id :: string
  kj_webhook :: "string option"
  kj_v1 :: bool
  kj_zeroDataRetention :: bool

datatype crawl_effect =
    LogCrawl string string
  | LogDebug string
  | SaveCrawl string stored_crawl
  | AddScrapeJobToBullMQ kickoff_job string nat

datatype crawl_body = CrawlError string | CrawlOk string string

record crawl_response =
  crawl_status :: nat
  crawl_json :: crawl_body

record account =
  account_remainingCredits :: "jsnum option"

text \<open>
  What the controller reads from outside. \<open>crawlRequestSchema_parse\<close> is the outcome of
  validating the body; \<open>RegExp_error\<close> gives the message of the \<open>SyntaxError\<close> that
  \<open>new RegExp(x)\<close> throws, if it throws; \<open>toLegacyCrawlerOptions\<close> and the crawler's
  robots functions are the ones the source imports. \<open>logCrawl\<close>, \<open>saveCrawl\<close> and the
  enqueueing of the kickoff job are recorded as effects and taken to complete.
\<close>

record crawl_env =
  crawlRequestSchema_parse :: "thrown + crawl_request"
  acuc :: "chunk option"
  req_account :: "account option"
  auth_team_id :: string
  crawl_uuidv4 :: string
  randomUUID :: string
  crawl_process :: process_env
  crawl_GCS_FIRE_ENGINE_BUCKET_NAME :: "string option"
  ENV :: "string option"
  req_protocol :: string
  req_host :: string
  RegExp_error :: "string \<Rightarrow> string option"
  toLegacyCrawlerOptions :: "crawler_options \<Rightarrow> legacy_crawler_options"
  getRobotsTxt :: "bool option \<Rightarrow> thrown + string"
  getRobotsCrawlDelay :: "string \<Rightarrow> int option"

definition truthy_bool :: "bool option \<Rightarrow> bool" where
  "truthy_bool v = (case v of None \<Rightarrow> False | Some b \<Rightarrow> b)"

definition truthy_int :: "int option \<Rightarrow> bool" where
  "truthy_int v = (case v of None \<Rightarrow> False | Some n \<Rightarrow> n \<noteq> 0)"

definition chunk_allowZDR :: "chunk option \<Rightarrow> bool" where
  "chunk_allowZDR chnk = (case chunk_flags chnk of None \<Rightarrow> False | Some f \<Rightarrow> allowZDR f)"

definition chunk_concurrency :: "chunk option \<Rightarrow> int option" where
  "chunk_concurrency chnk = (case chnk of None \<Rightarrow> None | Some c \<Rightarrow> concurrency c)"

text \<open>One of the two loops over the path patterns: the message of the first that fails.\<close>

fun regex_loop :: "(string \<Rightarrow> string option) \<Rightarrow> string list \<Rightarrow> string option" where
  "regex_loop compile [] = None"
| "regex_loop compile (x # xs) =
     (case compile x of Some msg \<Rightarrow> Some msg | None \<Rightarrow> regex_loop compile xs)"

definition regex_paths :: "(string \<Rightarrow> string option) \<Rightarrow> string list option \<Rightarrow> string option" where
  "regex_paths compile paths = (case paths of None \<Rightarrow> None | Some xs \<Rightarrow> regex_loop compile xs)"

definition remainingCredits_of :: "crawl_env \<Rightarrow> jsnum" where
  "remainingCredits_of env =
     (if useDbAuthentication (crawl_process env)
      then (case req_account env of
              None \<Rightarrow> Infinity
            | Some a \<Rightarrow> (case account_remainingCredits a of None \<Rightarrow> Infinity | Some r \<Rightarrow> r))
      else Infinity)"

definition crawl_maxConcurrency :: "int option \<Rightarrow> int option \<Rightarrow> int option" where
  "crawl_maxConcurrency body_mc team_cap =
     (case body_mc of
        Some m \<Rightarrow> (case team_cap of Some c \<Rightarrow> Some (Math_min (Num m) c) | None \<Rightarrow> Some m)
      | None \<Rightarrow> None)"

text \<open>The \<open>try\<close> block around the robots fetch; a failure is only logged.\<close>

definition robots_step :: "crawl_env \<Rightarrow> stored_crawl \<Rightarrow> stored_crawl \<times> crawl_effect list" where
  "robots_step env sc =
     (case getRobotsTxt env (skipTlsVerification (sc_scrapeOptions sc)) of
        Inl e \<Rightarrow> (sc, [LogDebug ''Failed to get robots.txt (this is probably fine!)''])
      | Inr txt \<Rightarrow>
          (let sc1 = sc\<lparr>robots := Some txt\<rparr>
           in case getRobotsCrawlDelay env txt of
                None \<Rightarrow> (sc1, [])
              | Some robotsCrawlDelay \<Rightarrow>
                  if \<not> truthy_int (delay (sc_crawlerOptions sc1))
                  then (sc1\<lparr>sc_crawlerOptions :=
                          (sc_crawlerOptions sc1)\<lparr>delay := Some robotsCrawlDelay\<rparr>\<rparr>, [])
                  else (sc1, [])))"

definition crawlController :: "crawl_env \<Rightarrow> (thrown + crawl_response) \<times> crawl_effect list" where
  "crawlController env =
     (case crawlRequestSchema_parse env of
        Inl e \<Rightarrow> (Inl e, [])
      | Inr req \<Rightarrow>
          if truthy_bool (zeroDataRetention req) \<and> \<not> chunk_allowZDR (acuc env)
          then (Inr \<lparr>crawl_status = 400, crawl_json = CrawlError
                  ''Zero data retention is enabled for this team. If you're interested in ZDR, please contact zardam@dubit.live''\<rparr>,
                [])
          else
            let zdr = (if chunk_forceZDR (acuc env) then Some True else zeroDataRetention req);
                id' = crawl_uuidv4 env;
                started = [LogDebug ''Crawl starting'', LogCrawl id' (auth_team_id env)];
                remaining = remainingCredits_of env;
                crawlerOpts = crawler_options.truncate req;
                scrapeOpts = crawl_scrapeOptions req
            in
              (case regex_paths (RegExp_error env) (includePaths crawlerOpts) of
                Some msg \<Rightarrow> (Inr \<lparr>crawl_status = 400, crawl_json = CrawlError msg\<rparr>, started)
              | None \<Rightarrow>
                  (case regex_paths (RegExp_error env) (excludePaths crawlerOpts) of
                     Some msg \<Rightarrow>
                       (Inr \<lparr>crawl_status = 400, crawl_json = CrawlError msg\<rparr>, started)
                   | None \<Rightarrow>
                       let crawlerOpts' =
                             crawlerOpts\<lparr>limit := Math_min remaining (limit crawlerOpts)\<rparr>;
                           internalOpts =
                             \<lparr>disableSmartWaitCache = Some True,
                              teamId = Some (auth_team_id env),
                              saveScrapeResultToGCS =
                                Some (truthy_str (crawl_GCS_FIRE_ENGINE_BUCKET_NAME env)),
                              io_zeroDataRetention = zdr\<rparr>;
                           sc = \<lparr>originUrl = crawl_url req,
                                 sc_crawlerOptions = toLegacyCrawlerOptions env crawlerOpts',
                                 sc_scrapeOptions = scrapeOpts,
                                 sc_internalOptions = internalOpts,
                                 sc_team_id = auth_team_id env,
                                 sc_maxConcurrency =
                                   crawl_maxConcurrency (maxConcurrency req)
                                     (chunk_concurrency (acuc env)),
                                 robots = None,
                                 cancelled = None,
                                 sc_zeroDataRetention = zdr\<rparr>;
                           fetched = robots_step env sc;
                           sc' = fst fetched;
                           protocol = (if ENV env = Some ''local'' then req_protocol env
                                       else ''https'')
                       in (Inr \<lparr>crawl_status = 200,
                                 crawl_json = CrawlOk id'
                                   (protocol @ ''://'' @ req_host env @ ''/v1/crawl/'' @ id')\<rparr>,
                           started @ [LogDebug ''Determined limit''] @ snd fetched @
                           [SaveCrawl id' sc',
                            AddScrapeJobToBullMQ
                              \<lparr>kj_url = crawl_url req, kj_mode = ''kickoff'',
                               kj_team_id = auth_team_id env,
                               kj_crawlerOptions = crawlerOpts',
                               kj_scrapeOptions = sc_scrapeOptions sc',
                               kj_internalOptions = sc_internalOptions sc',
                               kj_origin = crawl_origin req,
                               kj_integration = crawl_integration req,
                               kj_crawl_id = id', kj_webhook = webhook req, kj_v1 = True,
                               kj_zeroDataRetention = truthy_bool zdr\<rparr>
                              (randomUUID env) 10]))))"

text \<open>An admitted request: it passed validation, the ZDR gate and both pattern loops.\<close>

definition admitted :: "crawl_env \<Rightarrow> crawl_request \<Rightarrow> bool" where
  "admitted env req =
     (crawlRequestSchema_parse env = Inr req \<and>
      \<not> (truthy_bool (zeroDataRetention req) \<and> \<not> chunk_allowZDR (acuc env)) \<and>
      regex_paths (RegExp_error env) (includePaths req) = None \<and>
      regex_paths (RegExp_error env) (excludePaths req) = None)"

text \<open>The crawl records persisted among the effects.\<close>

fun saved_crawls :: "crawl_effect list \<Rightarrow> stored_crawl list" where
  "saved_crawls [] = []"
| "saved_crawls (SaveCrawl i sc # es) = sc # saved_crawls es"
| "saved_crawls (_ # es) = saved_crawls es"

section \<open>Progress streamer: \<open>crawlStatusWS\<close>\<close>

datatype JobState =
  Completed | Failed | Active | Waiting | WaitingChildren | Delayed | Prioritized | Unknown

record job =
  returnvalue :: "document option"

record crawl_status =
  cs_success :: bool
  cs_status :: string
  cs_total :: nat
  cs_completed :: nat
  cs_creditsUsed :: nat
  cs_expiresAt :: string
  cs_data :: "document option list"

text \<open>
  The frames. A document frame carries the job's return value; the model keeps the id of
  the job beside it, so that frames of different jobs can be told apart.
\<close>

datatype message =
    ErrorMessage string
  | CatchupMessage crawl_status
  | DoneMessage
  | DocumentMessage string document

text \<open>
  A session: the socket (its \<open>readyState\<close>, which is 1 for an open socket, the frames
  sent on it, the calls of \<open>ws.close\<close>), the two variables \<open>doneJobIDs\<close> and
  \<open>finished\<close> that the closure \<open>loop\<close> shares with the body of \<open>crawlStatusWS\<close>, and
  whether a timer for \<open>loop\<close> is pending.
\<close>

record session =
  readyState :: nat
  sent :: "message list"
  close_calls :: "(nat \<times> message) list"
  doneJobIDs :: "string list"
  finished :: bool
  timer :: bool

definition send :: "message \<Rightarrow> session \<Rightarrow> session" where
  "send msg s = (if readyState s = 1 then s\<lparr>sent := sent s @ [msg]\<rparr> else s)"

definition close :: "nat \<Rightarrow> message \<Rightarrow> session \<Rightarrow> session" where
  "close code msg s =
     (if readyState s \<le> 1
      then s\<lparr>readyState := 2, close_calls := close_calls s @ [(code, msg)]\<rparr>
      else s)"

text \<open>What one run of \<open>loop\<close> reads from the crawl store and the queue.\<close>

record poll_reads =
  getCrawlJobs :: "string list"
  getJobState :: "string \<Rightarrow> JobState"
  getJob :: "string \<Rightarrow> job option"

definition send_documents :: "(string \<times> job) list \<Rightarrow> session \<Rightarrow> session" where
  "send_documents jobs s =
     foldl (\<lambda>s' (x, j). case returnvalue j of
                          Some d \<Rightarrow> send (DocumentMessage x d) s'
                        | None \<Rightarrow> s') s jobs"

text \<open>
  One run of \<open>loop\<close>, when its timer fires. It ends by arming the timer again, unless it
  returned early.
\<close>

definition loop :: "poll_reads \<Rightarrow> session \<Rightarrow> session" where
  "loop r s =
     (if \<not> timer s then s
      else if finished s then s\<lparr>timer := False\<rparr>
      else
        let jobIDs = getCrawlJobs r
        in if length jobIDs = length (doneJobIDs s)
           then close 1000 DoneMessage (s\<lparr>timer := False\<rparr>)
           else
             let notDoneJobIDs = filter (\<lambda>x. x \<notin> set (doneJobIDs s)) jobIDs;
                 newlyDoneJobIDs =
                   filter (\<lambda>x. getJobState r x = Completed \<or> getJobState r x = Failed)
                     notDoneJobIDs;
                 newlyDoneJobs =
                   List.map_filter (\<lambda>x. map_option (Pair x) (getJob r x)) newlyDoneJobIDs;
                 s1 = send_documents newlyDoneJobs s
             in s1\<lparr>doneJobIDs := doneJobIDs s1 @ newlyDoneJobIDs\<rparr>)"

text \<open>What the body of \<open>crawlStatusWS\<close> reads for the catch-up frame.\<close>

record catchup_reads =
  c_getCrawlJobs :: "string list"
  c_getJobState :: "string \<Rightarrow> JobState"
  getConcurrencyLimitedJobs :: "string list"
  getJobs :: "string list \<Rightarrow> job list"
  getCrawlExpiry :: string

definition validJobStatuses :: "catchup_reads \<Rightarrow> (string \<times> JobState) list" where
  "validJobStatuses r =
     concat (map (\<lambda>x.
       if x \<in> set (getConcurrencyLimitedJobs r) then [(x, Prioritized)]
       else if c_getJobState r x \<noteq> Failed \<and> c_getJobState r x \<noteq> Unknown
       then [(x, c_getJobState r x)]
       else []) (c_getCrawlJobs r))"

definition catchup :: "stored_crawl \<Rightarrow> catchup_reads \<Rightarrow> session \<Rightarrow> session" where
  "catchup sc r s =
     (let valid = validJobStatuses r;
          status = (if truthy_bool (cancelled sc) then ''cancelled''
                    else if list_all (\<lambda>x. snd x = Completed) valid then ''completed''
                    else ''scraping'');
          jobIDs = map fst valid;
          doneJobs = getJobs r (doneJobIDs s);
          s1 = send (CatchupMessage
                 \<lparr>cs_success = True, cs_status = status, cs_total = length jobIDs,
                  cs_completed = length (doneJobIDs s), cs_creditsUsed = length jobIDs,
                  cs_expiresAt = getCrawlExpiry r, cs_data = map returnvalue doneJobs\<rparr>) s
      in if status \<noteq> ''scraping''
         then close 1000 DoneMessage (s1\<lparr>finished := True\<rparr>)
         else s1)"

text \<open>
  The session as a sequence of steps. \<open>crawlStatusWS\<close> arms the timer of \<open>loop\<close> first
  and then awaits \<open>getDoneJobsOrdered\<close>, assigns its result to \<open>doneJobIDs\<close>, and goes on
  to the catch-up frame; a run of \<open>loop\<close> takes place whenever its timer fires, at any
  point between these steps. Each step is taken as a whole.
\<close>

datatype event =
    TimerFires poll_reads
  | DoneJobsOrdered "string list"
  | CatchupReady catchup_reads

fun step :: "stored_crawl \<Rightarrow> event \<Rightarrow> session \<Rightarrow> session" where
  "step sc (TimerFires r) s = loop r s"
| "step sc (DoneJobsOrdered ids) s = s\<lparr>doneJobIDs := ids\<rparr>"
| "step sc (CatchupReady r) s = catchup sc r s"

fun run :: "stored_crawl \<Rightarrow> event list \<Rightarrow> session \<Rightarrow> session" where
  "run sc [] s = s"
| "run sc (e # es) s = run sc es (step sc e s)"

definition crawlStatusWS :: "stored_crawl option \<Rightarrow> string \<Rightarrow> event list \<Rightarrow> session" where
  "crawlStatusWS getCrawl auth_team es =
     (let s0 = \<lparr>readyState = 1, sent = [], close_calls = [], doneJobIDs = [], finished = False,
                 timer = False\<rparr>
      in case getCrawl of
           None \<Rightarrow> close 1008 (ErrorMessage ''Job not found'') s0
         | Some sc \<Rightarrow>
             if sc_team_id sc \<noteq> auth_team then close 3003 (ErrorMessage ''Forbidden'') s0
             else run sc es (s0\<lparr>timer := True\<rparr>))"

text \<open>
  A step after which \<open>doneJobIDs\<close> only grows: a run of \<open>loop\<close> that read a duplicate-free
  list of job ids, or the catch-up frame.
\<close>

fun settled :: "event \<Rightarrow> bool" where
  "settled (TimerFires r) = distinct (getCrawlJobs r)"
| "settled (DoneJobsOrdered ids) = False"
| "settled (CatchupReady r) = True"

text \<open>The job ids of the document frames among the frames sent, in order.\<close>

fun document_ids :: "message list \<Rightarrow> string list" where
  "document_ids [] = []"
| "document_ids (DocumentMessage x d # ms) = x # document_ids ms"
| "document_ids (_ # ms) = document_ids ms"

section \<open>Concrete environments\<close>

text \<open>
  Small environments on which the theorems below are instantiated: a helper environment
  with a given parse result and a given outcome of the wait, and a request body.
\<close>

definition example_chunk :: "int \<Rightarrow> int \<Rightarrow> chunk" where
  "example_chunk used tot =
     \<lparr>adjusted_credits_used = used, remaining_credits = tot - used,
      total_credits_sum = Some tot, sub_id = Some ''sub-1'',
      sub_current_period_start = None, sub_current_period_end = None,
      is_extract = False, flags = None, concurrency = None\<rparr>"

definition example_billing_env :: billing_env where
  "example_billing_env =
     \<lparr>getValue = (\<lambda>_. Inr None), teams_select = (\<lambda>_. Inr None),
      setValue = (\<lambda>_ _ _. None),
      autoCharge = (\<lambda>c _. Inr \<lparr>ctc_success = False, message = ''no card'',
                             remainingCredits = Num (remaining_credits c), ctc_chunk = Some c\<rparr>)\<rparr>"

definition example_helper_env ::
  "(thrown + string option) \<Rightarrow> (thrown + document option) \<Rightarrow> helper_env" where
  "example_helper_env parsed waited =
     \<lparr>urlSchema_parse = (\<lambda>_. parsed),
      isUrlBlocked = (\<lambda>_ _. False),
      BLOCKLISTED_URL_MESSAGE = ''URL is blocked'',
      getJobPriority = (\<lambda>_ b. Inr b),
      fromLegacyCombo = (\<lambda>_ _ _ _ _.
        (\<lparr>skipTlsVerification = None\<rparr>,
         \<lparr>disableSmartWaitCache = None, teamId = None, saveScrapeResultToGCS = None,
          io_zeroDataRetention = None\<rparr>)),
      GCS_FIRE_ENGINE_BUCKET_NAME = None,
      defaultOrigin = ''api'',
      addScrapeJob = (\<lambda>_ _ _. None),
      waitForJob = (\<lambda>_ _. waited),
      queue_remove = (\<lambda>_. None),
      toLegacyDocument = (\<lambda>d _.
        V0Doc \<lparr>v0_markdown = markdown d, v0_rawHtml = rawHtml d, v0_content = markdown d\<rparr>)\<rparr>"

definition example_body :: "string \<Rightarrow> scrape_body" where
  "example_body u =
     \<lparr>url = Some u, crawlerOptions = None, pageOptions = None, extractorOptions = None,
      origin = None, timeout = None, integration = None\<rparr>"

definition example_pageOptions :: page_options where
  "example_pageOptions =
     \<lparr>includeRawHtml = False, includeHtml = False, includeMarkdown = True,
      includeExtract = False, onlyMainContent = False\<rparr>"

definition example_extractorOptions :: extractor_options where
  "example_extractorOptions = \<lparr>mode = ''markdown'', extractionSchema = SchemaNotObject\<rparr>"

definition example_scrape_env ::
  "(thrown + string option) \<Rightarrow> (thrown + document option) \<Rightarrow> thrown option \<Rightarrow> scrape_env" where
  "example_scrape_env parsed waited bill_rejects =
     \<lparr>helper = example_helper_env parsed waited,
      authenticateUser = AuthOk ''team-1'' (Some (example_chunk 10 100)),
      sadd_rejects = None,
      defaultPageOptions = example_pageOptions,
      defaultExtractorOptions = example_extractorOptions,
      defaultTimeout = 30000,
      process = \<lparr>USE_DB_AUTHENTICATION = Some ''true'', ALLOWED_KEYS = None\<rparr>,
      warningCount = 0,
      billing = example_billing_env,
      uuidv4 = ''job-1'',
      billTeam_rejects = bill_rejects\<rparr>"

definition example_document :: document where
  "example_document =
     \<lparr>doc_index = Some 0, doc_provider = Some ''engine'', rawHtml = Some ''<p>hi</p>'',
      html = Some ''<p>hi</p>'', markdown = Some ''hi'', doc_extract = None\<rparr>"

definition example_crawl_request ::
  "string list \<Rightarrow> string list \<Rightarrow> int \<Rightarrow> int option \<Rightarrow> bool option \<Rightarrow> crawl_request" where
  "example_crawl_request inc exc n mc zdr =
     \<lparr>includePaths = Some inc, excludePaths = Some exc, limit = n, maxConcurrency = mc,
      webhook = None, zeroDataRetention = zdr, crawl_origin = Some ''api'',
      crawl_integration = None, crawl_url = ''https://a.example'',
      crawl_scrapeOptions = \<lparr>skipTlsVerification = None\<rparr>\<rparr>"

definition example_RegExp_error :: "string \<Rightarrow> string option" where
  "example_RegExp_error x =
     (if x = ''('' then Some ''Invalid regular expression: /(/: Unterminated group'' else None)"

definition example_crawl_env :: "crawl_request \<Rightarrow> chunk option \<Rightarrow> account option \<Rightarrow> crawl_env" where
  "example_crawl_env req chnk acct =
     \<lparr>crawlRequestSchema_parse = Inr req,
      acuc = chnk,
      req_account = acct,
      auth_team_id = ''team-1'',
      crawl_uuidv4 = ''crawl-1'',
      randomUUID = ''job-1'',
      crawl_process = \<lparr>USE_DB_AUTHENTICATION = Some ''true'', ALLOWED_KEYS = None\<rparr>,
      crawl_GCS_FIRE_ENGINE_BUCKET_NAME = None,
      ENV = None,
      req_protocol = ''http'',
      req_host = ''api.example'',
      RegExp_error = example_RegExp_error,
      toLegacyCrawlerOptions = (\<lambda>x. \<lparr>legacy_limit = limit x, delay = None\<rparr>),
      getRobotsTxt = (\<lambda>_. Inr ''User-agent: *''),
      getRobotsCrawlDelay = (\<lambda>_. None)\<rparr>"

definition example_stored_crawl :: stored_crawl where
  "example_stored_crawl =
     \<lparr>originUrl = ''https://a.example'',
      sc_crawlerOptions = \<lparr>legacy_limit = 10, delay = None\<rparr>,
      sc_scrapeOptions = \<lparr>skipTlsVerification = None\<rparr>,
      sc_internalOptions = \<lparr>disableSmartWaitCache = Some True, teamId = Some ''team-1'',
        saveScrapeResultToGCS = Some False, io_zeroDataRetention = None\<rparr>,
      sc_team_id = ''team-1'', sc_maxConcurrency = None, robots = None, cancelled = None,
      sc_zeroDataRetention = None\<rparr>"

definition example_poll :: poll_reads where
  "example_poll =
     \<lparr>getCrawlJobs = [''a'', ''b''],
      getJobState = (\<lambda>x. if x = ''a'' then Completed else Active),
      getJob = (\<lambda>x. if x = ''a'' then Some \<lparr>returnvalue = Some example_document\<rparr>
                     else Some \<lparr>returnvalue = None\<rparr>)\<rparr>"

definition example_catchup :: catchup_reads where
  "example_catchup =
     \<lparr>c_getCrawlJobs = [''a'', ''b''],
      c_getJobState = (\<lambda>x. if x = ''a'' then Completed else Active),
      getConcurrencyLimitedJobs = [],
      getJobs = map (\<lambda>_. \<lparr>returnvalue = Some example_document\<rparr>),
      getCrawlExpiry = ''2026-01-01T00:00:00.000Z''\<rparr>"

text \<open>The same environment with a queue whose \<open>remove\<close> rejects.\<close>

definition example_scrape_env_remove_rejects ::
  "(thrown + document option) \<Rightarrow> thrown \<Rightarrow> scrape_env" where
  "example_scrape_env_remove_rejects waited e =
     (example_scrape_env (Inr (Some ''https://a.example'')) waited None)
       \<lparr>helper := (example_helper_env (Inr (Some ''https://a.example'')) waited)
          \<lparr>queue_remove := (\<lambda>_. Some e)\<rparr>\<rparr>"

section \<open>Theorems: the wait for completion (\<open>scrapeHelper\<close>)\<close>

lemma scrapeHelper_wait_rejects:
  assumes "urlSchema_parse env (url req) = Inr (Some u)"
    and "\<not> isUrlBlocked env u flgs"
    and "getJobPriority env team_id 10 = Inr p"
    and "addScrapeJob env (scrape_job_of env req u team_id co po eo tmo) jobId p = None"
    and "waitForJob env jobId tmo = Inl e"
  shows "fst (scrapeHelper env jobId req team_id co po eo tmo flgs) = wait_catch e"
  using assms by (simp add: scrapeHelper_def Let_def)

text \<open>
  C1 (as amended). For a request that reaches the wait (the URL parses to a string and is
  not blocklisted, the job priority is read and the job is enqueued): when the wait rejects with an \<open>Error\<close> whose message starts with
  \<open>Job wait\<close> or equals \<open>timeout\<close>, \<open>scrapeHelper\<close> returns
  \<open>{success: false, error: "Request timed out", returnCode: 408}\<close>; when it rejects with
  a string that contains \<open>Error generating completions: \<close>,
  \<open>Invalid schema for function\<close> or
  \<open>LLM extraction did not match the extraction schema you provided.\<close>, it returns
  \<open>{success: false, returnCode: 500}\<close> with that string as the error; every other
  rejection is thrown again.
\<close>

theorem scrapeHelper_wait_errors:
  assumes "urlSchema_parse env (url req) = Inr (Some u)"
    and "\<not> isUrlBlocked env u flgs"
    and "getJobPriority env team_id 10 = Inr p"
    and "addScrapeJob env (scrape_job_of env req u team_id co po eo tmo) jobId p = None"
    and "waitForJob env jobId tmo = Inl e"
  shows
    "((\<exists>z m. e = ErrorObj z m \<and> (prefix ''Job wait'' m \<or> m = ''timeout'')) \<longrightarrow>
        fst (scrapeHelper env jobId req team_id co po eo tmo flgs) =
          Inr \<lparr>success = False, error = Some ''Request timed out'', data = None,
               returnCode = 408\<rparr>) \<and>
     (\<forall>s. e = ThrownString s \<and>
          (includes_str s ''Error generating completions: '' \<or>
           includes_str s ''Invalid schema for function'' \<or>
           includes_str s ''LLM extraction did not match the extraction schema you provided.'') \<longrightarrow>
        fst (scrapeHelper env jobId req team_id co po eo tmo flgs) =
          Inr \<lparr>success = False, error = Some s, data = None, returnCode = 500\<rparr>) \<and>
     (\<not> (\<exists>z m. e = ErrorObj z m \<and> (prefix ''Job wait'' m \<or> m = ''timeout'')) \<and>
      \<not> (\<exists>s. e = ThrownString s \<and>
          (includes_str s ''Error generating completions: '' \<or>
           includes_str s ''Invalid schema for function'' \<or>
           includes_str s ''LLM extraction did not match the extraction schema you provided.'')) \<longrightarrow>
        fst (scrapeHelper env jobId req team_id co po eo tmo flgs) = Inl e)"
  unfolding scrapeHelper_wait_rejects [OF assms]
  by (cases e) (auto simp: wait_catch_def)

theorem scrapeHelper_wait_errors_witness:
  "fst (scrapeHelper
          (example_helper_env (Inr (Some ''https://slow.example''))
             (Inl (ErrorObj False ''timeout'')))
          ''job-1'' (example_body ''https://slow.example'') ''team-1'' ''{}''
          example_pageOptions example_extractorOptions 100 None) =
     Inr \<lparr>success = False, error = Some ''Request timed out'', data = None, returnCode = 408\<rparr>"
proof -
  let ?env = "example_helper_env (Inr (Some ''https://slow.example''))
                (Inl (ErrorObj False ''timeout''))"
  let ?req = "example_body ''https://slow.example''"
  have p: "urlSchema_parse ?env (url ?req) = Inr (Some ''https://slow.example'')"
    by (simp add: example_helper_env_def)
  have b: "\<not> isUrlBlocked ?env ''https://slow.example'' None"
    by (simp add: example_helper_env_def)
  have g: "getJobPriority ?env ''team-1'' 10 = Inr 10"
    by (simp add: example_helper_env_def)
  have a: "addScrapeJob ?env
             (scrape_job_of ?env ?req ''https://slow.example'' ''team-1'' ''{}''
                example_pageOptions example_extractorOptions 100) ''job-1'' 10 = None"
    by (simp add: example_helper_env_def)
  have w: "waitForJob ?env ''job-1'' 100 = Inl (ErrorObj False ''timeout'')"
    by (simp add: example_helper_env_def)
  from scrapeHelper_wait_errors [OF p b g a w] show ?thesis
    by blast
qed

text \<open>
  The claim as the specification words it names the shorter substring
  \<open>LLM extraction did not match the extraction schema\<close>. A rejection with exactly that
  string contains it, and is thrown again rather than answered with 500.
\<close>

theorem wait_llm_substring_counterexample:
  "includes_str ''LLM extraction did not match the extraction schema''
     ''LLM extraction did not match the extraction schema'' \<and>
   fst (scrapeHelper
          (example_helper_env (Inr (Some ''https://a.example''))
             (Inl (ThrownString ''LLM extraction did not match the extraction schema'')))
          ''job-1'' (example_body ''https://a.example'') ''team-1'' ''{}'' example_pageOptions
          example_extractorOptions 100 None) =
     Inl (ThrownString ''LLM extraction did not match the extraction schema'')"
  by (simp add: scrapeHelper_def example_helper_env_def example_body_def wait_catch_def Let_def)

section \<open>Theorems: the credit check (\<open>supaCheckTeamCredits\<close>)\<close>












text \<open>
  At \<open>2^53\<close> credits used of \<open>2^53\<close>, one more credit is lost in the rounding of the sum:
  the check admits.
\<close>

lemma credit_decision_beyond_safe_integers:
  "ctc_success (fst (credit_decision
     \<lparr>adjusted_credits_used = 2 ^ 53, remaining_credits = 0, total_credits_sum = Some (2 ^ 53),
      sub_id = None, sub_current_period_start = None, sub_current_period_end = None,
      is_extract = False, flags = None, concurrency = None\<rparr> ''team-1'' 1))"
  by (simp add: credit_decision_def js_add_def round_double_def scale53.simps
      totalPriceCredits_def Let_def)



section \<open>Theorems: billing in the v0 scrape controller\<close>

lemma bill_calls_append: "bill_calls (xs @ ys) = bill_calls xs @ bill_calls ys"
  by (induction xs rule: bill_calls.induct) simp_all

lemma bill_calls_Billing: "bill_calls (map Billing xs) = []"
  by (induction xs) simp_all

lemma bill_calls_admission:
  "scrape_admission env req = Inr c \<Longrightarrow> bill_calls (hc_effects c) = []"
  by (auto simp: scrape_admission_def Let_def bill_calls_append bill_calls_Billing
      split: auth_result.splits if_splits sum.splits option.splits)

lemma bill_calls_scrapeHelper:
  "bill_calls (snd (scrapeHelper henv jobId req team_id co po eo tmo flgs)) = []"
  by (simp add: scrapeHelper_def Let_def split: sum.splits option.splits)

lemma bill_calls_early:
  "scrape_admission env req = Inl early \<Longrightarrow> bill_calls (snd early) = []"
  by (auto simp: scrape_admission_def Let_def bill_calls_append bill_calls_Billing
      split: auth_result.splits if_splits sum.splits option.splits)

lemma earlyReturn_admission:
  "scrape_admission env req = Inr c \<Longrightarrow> \<not> hc_earlyReturn c"
  by (auto simp: scrape_admission_def Let_def
      split: auth_result.splits if_splits sum.splits option.splits)

lemma extractorOptions_admission:
  "scrape_admission env req = Inr c \<Longrightarrow>
   hc_extractorOptions c = merge_extractorOptions (defaultExtractorOptions env) (extractorOptions req)"
  by (auto simp: scrape_admission_def Let_def
      split: auth_result.splits if_splits sum.splits option.splits)

lemma bill_calls_scrapeController:
  assumes "scrape_admission env req = Inr c"
  shows "bill_calls (snd (scrapeController env req)) =
     (case fst (helper_outcome env req c) of
        Inl e \<Rightarrow> []
      | Inr result \<Rightarrow>
          if success result
          then [(hc_team_id c, chunk_sub_id (hc_chunk c),
                 if includes_str (mode (hc_extractorOptions c)) ''llm-extraction''
                 then 5 else 1)]
          else [])"
  using assms bill_calls_admission [OF assms] earlyReturn_admission [OF assms]
  by (simp add: scrapeController_def scrape_completion_def helper_outcome_def Let_def
      bill_calls_append bill_calls_scrapeHelper split: sum.splits option.splits)

lemma scrapeHelper_408:
  assumes "fst (scrapeHelper henv jobId req team_id co po eo tmo flgs) = Inr result"
    and "returnCode result = 408"
  shows "\<not> success result"
  using assms
  by (auto simp: scrapeHelper_def wait_catch_def Let_def
      split: sum.splits option.splits if_splits thrown.splits)

lemma admission_billTeam_rejects:
  "scrape_admission (env\<lparr>billTeam_rejects := x\<rparr>) req = scrape_admission env req"
  by (simp add: scrape_admission_def Let_def
      cong: auth_result.case_cong if_cong sum.case_cong option.case_cong)

lemma helper_outcome_billTeam_rejects:
  "helper_outcome (env\<lparr>billTeam_rejects := x\<rparr>) req c = helper_outcome env req c"
  by (simp add: helper_outcome_def)

lemma completion_billTeam_rejects:
  "fst (scrape_completion (env\<lparr>billTeam_rejects := x\<rparr>) c outcome) =
   fst (scrape_completion env c outcome)"
  by (simp add: scrape_completion_def Let_def split: sum.splits)

lemma response_billTeam_rejects:
  "fst (scrapeController (env\<lparr>billTeam_rejects := x\<rparr>) req) = fst (scrapeController env req)"
  by (simp add: scrapeController_def admission_billTeam_rejects helper_outcome_billTeam_rejects
      completion_billTeam_rejects split: sum.splits)

lemma example_admission:
  "scrape_admission (example_scrape_env parsed waited rej) (example_body u) =
     Inr \<lparr>hc_team_id = ''team-1'', hc_chunk = Some (example_chunk 10 100),
          hc_crawlerOptions = ''{}'', hc_pageOptions = example_pageOptions,
          hc_extractorOptions = example_extractorOptions, hc_timeout = 30000,
          hc_earlyReturn = False, hc_effects = [Sadd ''teams_using_v0'' ''team-1'']\<rparr>"
  by (simp add: scrape_admission_def example_scrape_env_def example_body_def
      chunk_forceZDR_def chunk_flags_def example_chunk_def merge_pageOptions_def
      merge_extractorOptions_def example_extractorOptions_def checkTeamCredits_def
      withAuth_def useDbAuthentication_def supaCheckTeamCredits_def recharge_triggered_def
      recharge_config_def example_billing_env_def credit_decision_def totalPriceCredits_def
      js_divide_def js_add_def round_double_def scale53.simps Let_def)

lemma example_helper_outcome_document:
  "fst (helper_outcome
      (example_scrape_env (Inr (Some ''https://a.example'')) (Inr (Some example_document)) rej)
      (example_body ''https://a.example'')
      \<lparr>hc_team_id = ''team-1'', hc_chunk = Some (example_chunk 10 100),
       hc_crawlerOptions = ''{}'', hc_pageOptions = example_pageOptions,
       hc_extractorOptions = example_extractorOptions, hc_timeout = 30000,
       hc_earlyReturn = False, hc_effects = [Sadd ''teams_using_v0'' ''team-1'']\<rparr>) =
   Inr \<lparr>success = True, error = None,
        data = Some (V0Doc \<lparr>v0_markdown = Some ''hi'', v0_rawHtml = Some ''<p>hi</p>'',
                            v0_content = Some ''hi''\<rparr>),
        returnCode = 200\<rparr>"
  by (simp add: helper_outcome_def scrapeHelper_def example_scrape_env_def
      example_helper_env_def example_body_def strip_doc_def example_document_def
      example_pageOptions_def example_extractorOptions_def truthy_str_def Let_def)

text \<open>
  C3. In \<open>scrapeController\<close>, \<open>billTeam\<close> is called exactly when \<open>scrapeHelper\<close>
  returned a result with \<open>success = true\<close>, once, with 5 credits when
  \<open>extractorOptions.mode\<close> contains \<open>llm-extraction\<close> and with 1 credit otherwise. It is
  not called when the controller answers before the call of \<open>scrapeHelper\<close>, when
  \<open>scrapeHelper\<close> throws, or on a result with return code 408. Whether the promise of
  \<open>billTeam\<close> rejects does not change the response.
\<close>

theorem billTeam_iff_success:
  "(\<forall>c. scrape_admission env req = Inr c \<longrightarrow>
      bill_calls (snd (scrapeController env req)) =
        (case fst (helper_outcome env req c) of
           Inl e \<Rightarrow> []
         | Inr result \<Rightarrow>
             if success result
             then [(hc_team_id c, chunk_sub_id (hc_chunk c),
                    if includes_str
                         (mode (merge_extractorOptions (defaultExtractorOptions env)
                                  (extractorOptions req))) ''llm-extraction''
                    then 5 else 1)]
             else [])) \<and>
   (\<forall>early. scrape_admission env req = Inl early \<longrightarrow>
      bill_calls (snd (scrapeController env req)) = []) \<and>
   (\<forall>c result. scrape_admission env req = Inr c \<and>
      fst (helper_outcome env req c) = Inr result \<and> returnCode result = 408 \<longrightarrow>
      bill_calls (snd (scrapeController env req)) = []) \<and>
   (\<forall>x. fst (scrapeController (env\<lparr>billTeam_rejects := x\<rparr>) req) =
        fst (scrapeController env req))"
proof (intro conjI allI impI)
  fix c assume a: "scrape_admission env req = Inr c"
  show "bill_calls (snd (scrapeController env req)) =
        (case fst (helper_outcome env req c) of
           Inl e \<Rightarrow> []
         | Inr result \<Rightarrow>
             if success result
             then [(hc_team_id c, chunk_sub_id (hc_chunk c),
                    if includes_str
                         (mode (merge_extractorOptions (defaultExtractorOptions env)
                                  (extractorOptions req))) ''llm-extraction''
                    then 5 else 1)]
             else [])"
    using bill_calls_scrapeController [OF a] extractorOptions_admission [OF a] by simp
next
  fix early assume "scrape_admission env req = Inl early"
  then show "bill_calls (snd (scrapeController env req)) = []"
    by (simp add: scrapeController_def bill_calls_early)
next
  fix c result
  assume h: "scrape_admission env req = Inr c \<and>
      fst (helper_outcome env req c) = Inr result \<and> returnCode result = 408"
  then have "fst (scrapeHelper (helper env) (uuidv4 env) req (hc_team_id c)
      (hc_crawlerOptions c) (hc_pageOptions c) (hc_extractorOptions c) (hc_timeout c)
      (chunk_flags (hc_chunk c))) = Inr result" and "returnCode result = 408"
    by (simp_all add: helper_outcome_def)
  then have "\<not> success result"
    by (rule scrapeHelper_408)
  with h show "bill_calls (snd (scrapeController env req)) = []"
    using bill_calls_scrapeController [of env req c] by simp
next
  fix x
  show "fst (scrapeController (env\<lparr>billTeam_rejects := x\<rparr>) req) = fst (scrapeController env req)"
    by (rule response_billTeam_rejects)
qed

theorem billTeam_iff_success_witness:
  "bill_calls (snd (scrapeController
      (example_scrape_env (Inr (Some ''https://a.example'')) (Inr (Some example_document)) None)
      (example_body ''https://a.example''))) = [(''team-1'', Some ''sub-1'', 1)]"
proof -
  let ?env = "example_scrape_env (Inr (Some ''https://a.example''))
                (Inr (Some example_document)) None"
  let ?req = "example_body ''https://a.example''"
  let ?c = "\<lparr>hc_team_id = ''team-1'', hc_chunk = Some (example_chunk 10 100),
         hc_crawlerOptions = ''{}'', hc_pageOptions = example_pageOptions,
         hc_extractorOptions = example_extractorOptions, hc_timeout = 30000,
         hc_earlyReturn = False, hc_effects = [Sadd ''teams_using_v0'' ''team-1'']\<rparr>"
  have a: "scrape_admission ?env ?req = Inr ?c"
    by (rule example_admission)
  have m: "\<not> includes_str (mode (merge_extractorOptions (defaultExtractorOptions ?env)
                                    (extractorOptions ?req))) ''llm-extraction''"
    by (simp add: example_scrape_env_def example_body_def merge_extractorOptions_def
        example_extractorOptions_def)
  have s: "chunk_sub_id (Some (example_chunk 10 100)) = Some ''sub-1''"
    by (simp add: chunk_sub_id_def example_chunk_def)
  from billTeam_iff_success [of ?env ?req] a
  have "bill_calls (snd (scrapeController ?env ?req)) =
     (case fst (helper_outcome ?env ?req ?c) of
        Inl e \<Rightarrow> []
      | Inr result \<Rightarrow>
          if success result
          then [(hc_team_id ?c, chunk_sub_id (hc_chunk ?c),
                 if includes_str (mode (merge_extractorOptions (defaultExtractorOptions ?env)
                                    (extractorOptions ?req))) ''llm-extraction''
                 then 5 else 1)]
          else [])"
    by blast
  then show ?thesis
    unfolding example_helper_outcome_document using m s by simp
qed

section \<open>Theorems: a wait that yields no document\<close>

lemma scrapeHelper_falsy_document:
  assumes "urlSchema_parse henv (url req) = Inr (Some u)"
    and "\<not> isUrlBlocked henv u flgs"
    and "getJobPriority henv team_id 10 = Inr p"
    and "addScrapeJob henv (scrape_job_of henv req u team_id co po eo tmo) jobId p = None"
    and "waitForJob henv jobId tmo = Inr None"
  shows "fst (scrapeHelper henv jobId req team_id co po eo tmo flgs) =
     (case queue_remove henv jobId of
        None \<Rightarrow> Inr \<lparr>success = True, error = Some ''No page found'', data = None,
                     returnCode = 200\<rparr>
      | Some e \<Rightarrow> Inl e)"
  using assms by (simp add: scrapeHelper_def Let_def split: option.splits)

lemma response_of_result:
  assumes "scrape_admission env req = Inr c"
    and "fst (helper_outcome env req c) = Inr result"
  shows "fst (scrapeController env req) =
     Some \<lparr>status = returnCode result,
           body = ResultBody
             (result\<lparr>data := strip_response_data (hc_pageOptions c) (data result)\<rparr>)\<rparr>"
  using assms earlyReturn_admission [OF assms(1)]
  by (simp add: scrapeController_def scrape_completion_def Let_def)

lemma admission_helper:
  "scrape_admission (env\<lparr>helper := h\<rparr>) req = scrape_admission env req"
  by (simp add: scrape_admission_def Let_def
      cong: auth_result.case_cong if_cong sum.case_cong option.case_cong)

lemma example_admission_remove_rejects:
  "scrape_admission (example_scrape_env_remove_rejects waited e) (example_body u) =
     Inr \<lparr>hc_team_id = ''team-1'', hc_chunk = Some (example_chunk 10 100),
          hc_crawlerOptions = ''{}'', hc_pageOptions = example_pageOptions,
          hc_extractorOptions = example_extractorOptions, hc_timeout = 30000,
          hc_earlyReturn = False, hc_effects = [Sadd ''teams_using_v0'' ''team-1'']\<rparr>"
  by (simp add: example_scrape_env_remove_rejects_def admission_helper example_admission)

text \<open>
  C10 (as amended). When the wait resolves with a falsy document and the removal of the
  job from the queue then completes, \<open>scrapeHelper\<close> returns
  \<open>{success: true, error: "No page found", returnCode: 200}\<close> with no data, whatever the
  page and extractor options are (nothing is stripped or converted); when the removal
  rejects, \<open>scrapeHelper\<close> throws what the removal threw. In the first case the
  controller, having received \<open>success = true\<close>, calls \<open>billTeam\<close> for the request and
  answers 200 with that result.
\<close>

theorem falsy_document_is_billed:
  "(\<forall>henv jobId req team_id co po eo tmo flgs u p.
      urlSchema_parse henv (url req) = Inr (Some u) \<and> \<not> isUrlBlocked henv u flgs \<and>
      getJobPriority henv team_id 10 = Inr p \<and>
      addScrapeJob henv (scrape_job_of henv req u team_id co po eo tmo) jobId p = None \<and>
      waitForJob henv jobId tmo = Inr None \<longrightarrow>
      fst (scrapeHelper henv jobId req team_id co po eo tmo flgs) =
        (case queue_remove henv jobId of
           None \<Rightarrow> Inr \<lparr>success = True, error = Some ''No page found'', data = None,
                        returnCode = 200\<rparr>
         | Some e \<Rightarrow> Inl e)) \<and>
   (\<forall>env req c u p.
      scrape_admission env req = Inr c \<and>
      urlSchema_parse (helper env) (url req) = Inr (Some u) \<and>
      \<not> isUrlBlocked (helper env) u (chunk_flags (hc_chunk c)) \<and>
      getJobPriority (helper env) (hc_team_id c) 10 = Inr p \<and>
      addScrapeJob (helper env)
        (scrape_job_of (helper env) req u (hc_team_id c) (hc_crawlerOptions c)
           (hc_pageOptions c) (hc_extractorOptions c) (hc_timeout c)) (uuidv4 env) p = None \<and>
      waitForJob (helper env) (uuidv4 env) (hc_timeout c) = Inr None \<and>
      queue_remove (helper env) (uuidv4 env) = None \<longrightarrow>
      bill_calls (snd (scrapeController env req)) =
        [(hc_team_id c, chunk_sub_id (hc_chunk c),
          if includes_str (mode (hc_extractorOptions c)) ''llm-extraction'' then 5 else 1)] \<and>
      fst (scrapeController env req) =
        Some \<lparr>status = 200,
              body = ResultBody \<lparr>success = True, error = Some ''No page found'', data = None,
                                 returnCode = 200\<rparr>\<rparr>)"
proof (intro conjI allI impI)
  fix henv :: helper_env and req :: scrape_body and jobId team_id co po eo tmo flgs u p
  assume "urlSchema_parse henv (url req) = Inr (Some u) \<and> \<not> isUrlBlocked henv u flgs \<and>
      getJobPriority henv team_id 10 = Inr p \<and>
      addScrapeJob henv (scrape_job_of henv req u team_id co po eo tmo) jobId p = None \<and>
      waitForJob henv jobId tmo = Inr None"
  then show "fst (scrapeHelper henv jobId req team_id co po eo tmo flgs) =
        (case queue_remove henv jobId of
           None \<Rightarrow> Inr \<lparr>success = True, error = Some ''No page found'', data = None,
                        returnCode = 200\<rparr>
         | Some e \<Rightarrow> Inl e)"
    by (simp add: scrapeHelper_falsy_document)
next
  fix env and req :: scrape_body and c u p
  assume h: "scrape_admission env req = Inr c \<and>
      urlSchema_parse (helper env) (url req) = Inr (Some u) \<and>
      \<not> isUrlBlocked (helper env) u (chunk_flags (hc_chunk c)) \<and>
      getJobPriority (helper env) (hc_team_id c) 10 = Inr p \<and>
      addScrapeJob (helper env)
        (scrape_job_of (helper env) req u (hc_team_id c) (hc_crawlerOptions c)
           (hc_pageOptions c) (hc_extractorOptions c) (hc_timeout c)) (uuidv4 env) p = None \<and>
      waitForJob (helper env) (uuidv4 env) (hc_timeout c) = Inr None \<and>
      queue_remove (helper env) (uuidv4 env) = None"
  then have a: "scrape_admission env req = Inr c" by simp
  from h have r: "fst (helper_outcome env req c) =
      Inr \<lparr>success = True, error = Some ''No page found'', data = None, returnCode = 200\<rparr>"
    by (simp add: helper_outcome_def scrapeHelper_falsy_document)
  show "bill_calls (snd (scrapeController env req)) =
        [(hc_team_id c, chunk_sub_id (hc_chunk c),
          if includes_str (mode (hc_extractorOptions c)) ''llm-extraction'' then 5 else 1)]"
    using bill_calls_scrapeController [OF a] r by simp
  show "fst (scrapeController env req) =
        Some \<lparr>status = 200,
              body = ResultBody \<lparr>success = True, error = Some ''No page found'', data = None,
                                 returnCode = 200\<rparr>\<rparr>"
    using response_of_result [OF a r] by (simp add: strip_response_data_def)
qed

theorem falsy_document_is_billed_witness:
  "fst (scrapeController
      (example_scrape_env (Inr (Some ''https://a.example'')) (Inr None) None)
      (example_body ''https://a.example'')) =
     Some \<lparr>status = 200,
           body = ResultBody \<lparr>success = True, error = Some ''No page found'', data = None,
                              returnCode = 200\<rparr>\<rparr> \<and>
   bill_calls (snd (scrapeController
      (example_scrape_env (Inr (Some ''https://a.example'')) (Inr None) None)
      (example_body ''https://a.example''))) = [(''team-1'', Some ''sub-1'', 1)]"
proof -
  let ?env = "example_scrape_env (Inr (Some ''https://a.example'')) (Inr None) None"
  let ?req = "example_body ''https://a.example''"
  let ?c = "\<lparr>hc_team_id = ''team-1'', hc_chunk = Some (example_chunk 10 100),
         hc_crawlerOptions = ''{}'', hc_pageOptions = example_pageOptions,
         hc_extractorOptions = example_extractorOptions, hc_timeout = 30000,
         hc_earlyReturn = False, hc_effects = [Sadd ''teams_using_v0'' ''team-1'']\<rparr>"
  have a: "scrape_admission ?env ?req = Inr ?c"
    by (rule example_admission)
  have p: "urlSchema_parse (helper ?env) (url ?req) = Inr (Some ''https://a.example'')"
    by (simp add: example_scrape_env_def example_helper_env_def)
  have b: "\<not> isUrlBlocked (helper ?env) ''https://a.example'' (chunk_flags (hc_chunk ?c))"
    by (simp add: example_scrape_env_def example_helper_env_def)
  have g: "getJobPriority (helper ?env) (hc_team_id ?c) 10 = Inr 10"
    by (simp add: example_scrape_env_def example_helper_env_def)
  have q: "addScrapeJob (helper ?env)
        (scrape_job_of (helper ?env) ?req ''https://a.example'' (hc_team_id ?c)
           (hc_crawlerOptions ?c) (hc_pageOptions ?c) (hc_extractorOptions ?c) (hc_timeout ?c))
        (uuidv4 ?env) 10 = None"
    by (simp add: example_scrape_env_def example_helper_env_def)
  have w: "waitForJob (helper ?env) (uuidv4 ?env) (hc_timeout ?c) = Inr None"
    by (simp add: example_scrape_env_def example_helper_env_def)
  have d: "queue_remove (helper ?env) (uuidv4 ?env) = None"
    by (simp add: example_scrape_env_def example_helper_env_def)
  have s: "chunk_sub_id (Some (example_chunk 10 100)) = Some ''sub-1''"
    by (simp add: chunk_sub_id_def example_chunk_def)
  have m: "\<not> includes_str (mode example_extractorOptions) ''llm-extraction''"
    by (simp add: example_extractorOptions_def)
  from falsy_document_is_billed a p b g q w d
  have "bill_calls (snd (scrapeController ?env ?req)) =
        [(hc_team_id ?c, chunk_sub_id (hc_chunk ?c),
          if includes_str (mode (hc_extractorOptions ?c)) ''llm-extraction'' then 5 else 1)] \<and>
      fst (scrapeController ?env ?req) =
        Some \<lparr>status = 200,
              body = ResultBody \<lparr>success = True, error = Some ''No page found'', data = None,
                                 returnCode = 200\<rparr>\<rparr>"
    by blast
  then show ?thesis using s m by simp
qed

text \<open>
  Without the condition on the removal the claim fails: the removal is awaited between
  the wait and the test of the document. With a queue whose \<open>remove\<close> rejects, a wait that
  resolved with no document ends in a throw of \<open>scrapeHelper\<close>; the controller answers 500
  and \<open>billTeam\<close> is not called.
\<close>

theorem removal_rejects_counterexample:
  "waitForJob (helper (example_scrape_env_remove_rejects (Inr None)
       (ErrorObj False ''Connection is closed.''))) ''job-1'' 30000 = Inr None \<and>
   fst (scrapeHelper
      (helper (example_scrape_env_remove_rejects (Inr None)
         (ErrorObj False ''Connection is closed.'')))
      ''job-1'' (example_body ''https://a.example'') ''team-1'' ''{}'' example_pageOptions
      example_extractorOptions 30000 None) = Inl (ErrorObj False ''Connection is closed.'') \<and>
   fst (scrapeController
      (example_scrape_env_remove_rejects (Inr None) (ErrorObj False ''Connection is closed.''))
      (example_body ''https://a.example'')) =
     Some \<lparr>status = 500, body = ErrorBody ''Connection is closed.''\<rparr> \<and>
   bill_calls (snd (scrapeController
      (example_scrape_env_remove_rejects (Inr None) (ErrorObj False ''Connection is closed.''))
      (example_body ''https://a.example''))) = []"
proof -
  let ?env = "example_scrape_env_remove_rejects (Inr None) (ErrorObj False ''Connection is closed.'')"
  let ?req = "example_body ''https://a.example''"
  have h: "scrapeHelper (helper ?env) ''job-1'' ?req ''team-1'' ''{}'' example_pageOptions
      example_extractorOptions 30000 None =
      (Inl (ErrorObj False ''Connection is closed.''),
       [AddScrapeJob (scrape_job_of (helper ?env) ?req ''https://a.example'' ''team-1'' ''{}''
          example_pageOptions example_extractorOptions 30000) ''job-1'' 10,
        QueueRemove ''job-1''])"
    by (simp add: scrapeHelper_def example_scrape_env_remove_rejects_def
        example_helper_env_def example_body_def Let_def)
  have u: "uuidv4 ?env = ''job-1''"
    by (simp add: example_scrape_env_remove_rejects_def example_scrape_env_def)
  have c: "scrapeController ?env ?req =
      scrape_completion ?env
        \<lparr>hc_team_id = ''team-1'', hc_chunk = Some (example_chunk 10 100),
          hc_crawlerOptions = ''{}'', hc_pageOptions = example_pageOptions,
          hc_extractorOptions = example_extractorOptions, hc_timeout = 30000,
          hc_earlyReturn = False, hc_effects = [Sadd ''teams_using_v0'' ''team-1'']\<rparr>
        (scrapeHelper (helper ?env) ''job-1'' ?req ''team-1'' ''{}'' example_pageOptions
           example_extractorOptions 30000 None)"
    by (simp add: scrapeController_def example_admission_remove_rejects helper_outcome_def u
        chunk_flags_def example_chunk_def)
  show ?thesis
    unfolding c h
    by (simp add: scrape_completion_def catch_response_def
        example_scrape_env_remove_rejects_def example_helper_env_def)
qed

section \<open>Theorems: an invalid URL in the v0 scrape controller\<close>

lemma invalid_url_response:
  assumes "scrape_admission env req = Inr c"
    and "urlSchema_parse (helper env) (url req) = Inl (ErrorObj True m)"
  shows "fst (scrapeController env req) =
           Some \<lparr>status = 500, body = ErrorBody ''Invalid URL''\<rparr>"
  using assms
  by (simp add: scrapeController_def scrape_completion_def helper_outcome_def
      scrapeHelper_def catch_response_def)

text \<open>
  C8. The claim is that a request whose \<open>url\<close> fails validation is answered with status
  400. In the code \<open>urlSchema.parse\<close> throws a \<open>ZodError\<close> inside \<open>scrapeHelper\<close>, which
  reaches the outer \<open>catch\<close> of the controller: an authenticated team with credits that
  posts an invalid URL is answered with status 500 and the error \<open>Invalid URL\<close>.
\<close>

theorem invalid_url_answers_500:
  "fst (scrapeController
      (example_scrape_env (Inl (ErrorObj True ''Invalid url'')) (Inr None) None)
      (example_body ''not a url'')) =
   Some \<lparr>status = 500, body = ErrorBody ''Invalid URL''\<rparr>"
  by (rule invalid_url_response [OF example_admission])
    (simp add: example_scrape_env_def example_helper_env_def)

section \<open>Theorems: the v1 crawl controller\<close>

lemma regex_loop_find:
  "regex_loop compile xs =
     (case List.find (\<lambda>x. compile x \<noteq> None) xs of None \<Rightarrow> None | Some x \<Rightarrow> compile x)"
  by (induction xs) (auto split: option.splits)

lemma find_append:
  "List.find P (xs @ ys) = (case List.find P xs of None \<Rightarrow> List.find P ys | Some x \<Rightarrow> Some x)"
  by (induction xs) simp_all

lemma regex_paths_first:
  assumes "List.find (\<lambda>x. compile x \<noteq> None)
             ((case inc of None \<Rightarrow> [] | Some xs \<Rightarrow> xs) @ (case exc of None \<Rightarrow> [] | Some xs \<Rightarrow> xs)) = Some x"
    and "compile x = Some msg"
  shows "regex_paths compile inc = Some msg \<or>
         (regex_paths compile inc = None \<and> regex_paths compile exc = Some msg)"
  using assms
  by (auto simp: regex_paths_def regex_loop_find find_append split: option.splits)

lemma truncate_fields [simp]:
  "includePaths (crawler_options.truncate r) = includePaths r"
  "excludePaths (crawler_options.truncate r) = excludePaths r"
  "limit (crawler_options.truncate r) = limit r"
  by (simp_all add: crawler_options.truncate_def)

lemma robots_step_keeps:
  "legacy_limit (sc_crawlerOptions (fst (robots_step env sc))) = legacy_limit (sc_crawlerOptions sc)"
  "sc_maxConcurrency (fst (robots_step env sc)) = sc_maxConcurrency sc"
  by (simp_all add: robots_step_def Let_def split: sum.splits option.splits)

lemma saved_crawls_append: "saved_crawls (xs @ ys) = saved_crawls xs @ saved_crawls ys"
  by (induction xs rule: saved_crawls.induct) simp_all

lemma saved_crawls_robots_step: "saved_crawls (snd (robots_step env sc)) = []"
  by (simp add: robots_step_def Let_def split: sum.splits option.splits)

lemma admitted_status:
  "admitted env req \<Longrightarrow> \<exists>r. fst (crawlController env) = Inr r \<and> crawl_status r = 200"
  by (auto simp: admitted_def crawlController_def Let_def)

lemma admitted_saved:
  assumes "admitted env req"
  shows "\<exists>sc. saved_crawls (snd (crawlController env)) = [sc] \<and>
     legacy_limit (sc_crawlerOptions sc) =
       legacy_limit (toLegacyCrawlerOptions env
         ((crawler_options.truncate req)\<lparr>limit := Math_min (remainingCredits_of env) (limit req)\<rparr>)) \<and>
     sc_maxConcurrency sc = crawl_maxConcurrency (maxConcurrency req) (chunk_concurrency (acuc env))"
  using assms
  by (auto simp: admitted_def crawlController_def Let_def saved_crawls_append
      saved_crawls_robots_step robots_step_keeps)

lemma example_admitted:
  "admitted (example_crawl_env (example_crawl_request [''/blog/.*''] [] n mc None) chnk acct)
     (example_crawl_request [''/blog/.*''] [] n mc None)"
  by (simp add: admitted_def example_crawl_env_def example_crawl_request_def truthy_bool_def
      regex_paths_def example_RegExp_error_def)

text \<open>
  C4. A validated crawl request with \<open>zeroDataRetention = true\<close> from a team whose flags
  do not include \<open>allowZDR\<close> is answered with status 400 and the explanatory error, and
  the controller returns before anything is persisted: \<open>saveCrawl\<close> is not called.
\<close>

theorem zdr_rejected_before_save:
  assumes "crawlRequestSchema_parse env = Inr req"
    and "zeroDataRetention req = Some True"
    and "\<not> chunk_allowZDR (acuc env)"
  shows "fst (crawlController env) =
           Inr \<lparr>crawl_status = 400, crawl_json = CrawlError
             ''Zero data retention is enabled for this team. If you're interested in ZDR, please contact zardam@dubit.live''\<rparr> \<and>
         saved_crawls (snd (crawlController env)) = []"
  using assms by (simp add: crawlController_def truthy_bool_def)

theorem zdr_rejected_before_save_witness:
  "fst (crawlController
      (example_crawl_env (example_crawl_request [] [] 10 None (Some True)) None None)) =
     Inr \<lparr>crawl_status = 400, crawl_json = CrawlError
       ''Zero data retention is enabled for this team. If you're interested in ZDR, please contact zardam@dubit.live''\<rparr> \<and>
   saved_crawls (snd (crawlController
      (example_crawl_env (example_crawl_request [] [] 10 None (Some True)) None None))) = []"
proof -
  let ?req = "example_crawl_request [] [] 10 None (Some True)"
  let ?env = "example_crawl_env ?req None None"
  have p: "crawlRequestSchema_parse ?env = Inr ?req"
    by (simp add: example_crawl_env_def)
  have z: "zeroDataRetention ?req = Some True"
    by (simp add: example_crawl_request_def)
  have a: "\<not> chunk_allowZDR (acuc ?env)"
    by (simp add: example_crawl_env_def chunk_allowZDR_def chunk_flags_def)
  from zdr_rejected_before_save [OF p z a] show ?thesis .
qed

text \<open>
  C5 (as amended). For a validated crawl request that passes the ZDR gate: when some
  entry of \<open>includePaths\<close> or \<open>excludePaths\<close> does not compile as a regular expression,
  the controller answers 400 with the message of the first failing entry (\<open>includePaths\<close>
  before \<open>excludePaths\<close>, each in array order), and no crawl record is persisted.
\<close>

theorem invalid_regex_rejected:
  assumes "crawlRequestSchema_parse env = Inr req"
    and "\<not> (truthy_bool (zeroDataRetention req) \<and> \<not> chunk_allowZDR (acuc env))"
    and "List.find (\<lambda>x. RegExp_error env x \<noteq> None)
           ((case includePaths req of None \<Rightarrow> [] | Some xs \<Rightarrow> xs) @
            (case excludePaths req of None \<Rightarrow> [] | Some xs \<Rightarrow> xs)) = Some x"
    and "RegExp_error env x = Some msg"
  shows "fst (crawlController env) = Inr \<lparr>crawl_status = 400, crawl_json = CrawlError msg\<rparr> \<and>
         saved_crawls (snd (crawlController env)) = []"
  using assms(1,2) regex_paths_first [OF assms(3,4)]
  by (auto simp: crawlController_def Let_def)

theorem invalid_regex_rejected_witness:
  "fst (crawlController
      (example_crawl_env (example_crawl_request [''/blog/.*''] [''(''] 10 None None) None None)) =
     Inr \<lparr>crawl_status = 400, crawl_json = CrawlError
       ''Invalid regular expression: /(/: Unterminated group''\<rparr> \<and>
   saved_crawls (snd (crawlController
      (example_crawl_env (example_crawl_request [''/blog/.*''] [''(''] 10 None None) None None))) = []"
proof -
  let ?req = "example_crawl_request [''/blog/.*''] [''(''] 10 None None"
  let ?env = "example_crawl_env ?req None None"
  have p: "crawlRequestSchema_parse ?env = Inr ?req"
    by (simp add: example_crawl_env_def)
  have z: "\<not> (truthy_bool (zeroDataRetention ?req) \<and> \<not> chunk_allowZDR (acuc ?env))"
    by (simp add: example_crawl_request_def truthy_bool_def)
  have f: "List.find (\<lambda>x. RegExp_error ?env x \<noteq> None)
           ((case includePaths ?req of None \<Rightarrow> [] | Some xs \<Rightarrow> xs) @
            (case excludePaths ?req of None \<Rightarrow> [] | Some xs \<Rightarrow> xs)) = Some ''(''"
    by (simp add: example_crawl_env_def example_crawl_request_def example_RegExp_error_def)
  have m: "RegExp_error ?env ''('' = Some ''Invalid regular expression: /(/: Unterminated group''"
    by (simp add: example_crawl_env_def example_RegExp_error_def)
  from invalid_regex_rejected [OF p z f m] show ?thesis .
qed

text \<open>
  Without the ZDR gate the claim fails in its message: a request with
  \<open>zeroDataRetention = true\<close> from a team without \<open>allowZDR\<close> and the pattern \<open>(\<close> is
  answered 400 with the ZDR error, not with the message of the pattern.
\<close>

theorem invalid_regex_zdr_counterexample:
  "List.find (\<lambda>x. example_RegExp_error x \<noteq> None) [''(''] = Some ''('' \<and>
   example_RegExp_error ''('' = Some ''Invalid regular expression: /(/: Unterminated group'' \<and>
   fst (crawlController
      (example_crawl_env (example_crawl_request [''(''] [] 10 None (Some True)) None None)) =
     Inr \<lparr>crawl_status = 400, crawl_json = CrawlError
       ''Zero data retention is enabled for this team. If you're interested in ZDR, please contact zardam@dubit.live''\<rparr> \<and>
   ''Zero data retention is enabled for this team. If you're interested in ZDR, please contact zardam@dubit.live''
     \<noteq> ''Invalid regular expression: /(/: Unterminated group''"
  by (simp add: crawlController_def example_crawl_env_def example_crawl_request_def
      example_RegExp_error_def truthy_bool_def chunk_allowZDR_def chunk_flags_def)

text \<open>
  C6. For an admitted crawl request, one crawl record is saved, and its limit is
  \<open>min(account.remainingCredits, limit)\<close> when DB authentication is enabled and the
  account carries a finite \<open>remainingCredits\<close>, and the requested limit otherwise (no DB
  authentication, no account, or no finite value). \<open>toLegacyCrawlerOptions\<close> is taken to
  copy the limit into the legacy options, as the specification's stored crawl has it.
\<close>

theorem stored_limit_clamped:
  assumes "admitted env req"
    and "\<forall>opts. legacy_limit (toLegacyCrawlerOptions env opts) = limit opts"
  shows "\<exists>sc. saved_crawls (snd (crawlController env)) = [sc] \<and>
     (\<forall>a r. USE_DB_AUTHENTICATION (crawl_process env) = Some ''true'' \<and>
            req_account env = Some a \<and> account_remainingCredits a = Some (Num r) \<longrightarrow>
            legacy_limit (sc_crawlerOptions sc) = min r (limit req)) \<and>
     (USE_DB_AUTHENTICATION (crawl_process env) \<noteq> Some ''true'' \<or> req_account env = None \<or>
      (\<exists>a. req_account env = Some a \<and>
           (account_remainingCredits a = None \<or> account_remainingCredits a = Some Infinity)) \<longrightarrow>
        legacy_limit (sc_crawlerOptions sc) = limit req)"
proof -
  from admitted_saved [OF assms(1)] assms(2) obtain sc where
    s: "saved_crawls (snd (crawlController env)) = [sc]" and
    l: "legacy_limit (sc_crawlerOptions sc) = Math_min (remainingCredits_of env) (limit req)"
    by auto
  have 1: "legacy_limit (sc_crawlerOptions sc) = min r (limit req)"
    if "USE_DB_AUTHENTICATION (crawl_process env) = Some ''true'' \<and>
        req_account env = Some a \<and> account_remainingCredits a = Some (Num r)" for a r
    using that l by (simp add: remainingCredits_of_def useDbAuthentication_def min_def)
  have 2: "legacy_limit (sc_crawlerOptions sc) = limit req"
    if "USE_DB_AUTHENTICATION (crawl_process env) \<noteq> Some ''true'' \<or> req_account env = None \<or>
      (\<exists>a. req_account env = Some a \<and>
           (account_remainingCredits a = None \<or> account_remainingCredits a = Some Infinity))"
    using that l by (auto simp: remainingCredits_of_def useDbAuthentication_def)
  from s 1 2 show ?thesis by blast
qed

theorem stored_limit_clamped_witness:
  "map (\<lambda>sc. legacy_limit (sc_crawlerOptions sc))
     (saved_crawls (snd (crawlController
        (example_crawl_env (example_crawl_request [''/blog/.*''] [] 1000 None None)
           (Some (example_chunk 10 100))
           (Some \<lparr>account_remainingCredits = Some (Num 50)\<rparr>))))) = [50]"
proof -
  let ?req = "example_crawl_request [''/blog/.*''] [] 1000 None None"
  let ?env = "example_crawl_env ?req (Some (example_chunk 10 100))
                (Some \<lparr>account_remainingCredits = Some (Num 50)\<rparr>)"
  have k: "\<forall>opts. legacy_limit (toLegacyCrawlerOptions ?env opts) = limit opts"
    by (simp add: example_crawl_env_def)
  have d: "USE_DB_AUTHENTICATION (crawl_process ?env) = Some ''true'' \<and>
           req_account ?env = Some \<lparr>account_remainingCredits = Some (Num 50)\<rparr> \<and>
           account_remainingCredits \<lparr>account_remainingCredits = Some (Num 50)\<rparr> = Some (Num 50)"
    by (simp add: example_crawl_env_def)
  have l: "limit ?req = 1000"
    by (simp add: example_crawl_request_def)
  from stored_limit_clamped [OF example_admitted k] obtain sc where
    "saved_crawls (snd (crawlController ?env)) = [sc]"
    "\<forall>a r. USE_DB_AUTHENTICATION (crawl_process ?env) = Some ''true'' \<and>
            req_account ?env = Some a \<and> account_remainingCredits a = Some (Num r) \<longrightarrow>
            legacy_limit (sc_crawlerOptions sc) = min r (limit ?req)"
    by blast
  with d l show ?thesis by simp
qed

text \<open>
  C7 (as amended). For an admitted crawl request, the stored \<open>maxConcurrency\<close> is the
  minimum of the request's \<open>maxConcurrency\<close> and the team's concurrency cap when both are
  present, the request's value when the team has no cap, and absent whenever the request
  gives none.
\<close>

theorem stored_maxConcurrency:
  assumes "admitted env req"
  shows "\<exists>sc. saved_crawls (snd (crawlController env)) = [sc] \<and>
     sc_maxConcurrency sc =
       (case maxConcurrency req of
          None \<Rightarrow> None
        | Some m \<Rightarrow>
            (case chunk_concurrency (acuc env) of
               None \<Rightarrow> Some m
             | Some c \<Rightarrow> Some (min m c)))"
proof -
  from admitted_saved [OF assms] obtain sc where
    s: "saved_crawls (snd (crawlController env)) = [sc]" and
    m: "sc_maxConcurrency sc = crawl_maxConcurrency (maxConcurrency req) (chunk_concurrency (acuc env))"
    by auto
  have "crawl_maxConcurrency (maxConcurrency req) (chunk_concurrency (acuc env)) =
       (case maxConcurrency req of
          None \<Rightarrow> None
        | Some m \<Rightarrow>
            (case chunk_concurrency (acuc env) of
               None \<Rightarrow> Some m
             | Some c \<Rightarrow> Some (min m c)))"
    by (simp add: crawl_maxConcurrency_def min_def split: option.splits)
  with s m show ?thesis by simp
qed

theorem stored_maxConcurrency_witness:
  "map sc_maxConcurrency
     (saved_crawls (snd (crawlController
        (example_crawl_env (example_crawl_request [''/blog/.*''] [] 1000 (Some 8) None)
           (Some ((example_chunk 10 100)\<lparr>concurrency := Some 5\<rparr>)) None)))) = [Some 5]"
proof -
  let ?req = "example_crawl_request [''/blog/.*''] [] 1000 (Some 8) None"
  let ?env = "example_crawl_env ?req (Some ((example_chunk 10 100)\<lparr>concurrency := Some 5\<rparr>)) None"
  have m: "maxConcurrency ?req = Some 8"
    by (simp add: example_crawl_request_def)
  have c: "chunk_concurrency (acuc ?env) = Some 5"
    by (simp add: example_crawl_env_def chunk_concurrency_def)
  from stored_maxConcurrency [OF example_admitted, of 1000 "Some 8"
      "Some ((example_chunk 10 100)\<lparr>concurrency := Some 5\<rparr>)" None]
  show ?thesis unfolding m c by auto
qed

text \<open>
  The claim as stated takes the team's cap when the request gives no value. The code
  stores nothing then: a request without \<open>maxConcurrency\<close> from a team capped at 5.
\<close>

theorem team_cap_alone_counterexample:
  "maxConcurrency (example_crawl_request [''/blog/.*''] [] 1000 None None) = None \<and>
   chunk_concurrency (acuc (example_crawl_env
      (example_crawl_request [''/blog/.*''] [] 1000 None None)
      (Some ((example_chunk 10 100)\<lparr>concurrency := Some 5\<rparr>)) None)) = Some 5 \<and>
   map sc_maxConcurrency
     (saved_crawls (snd (crawlController
        (example_crawl_env (example_crawl_request [''/blog/.*''] [] 1000 None None)
           (Some ((example_chunk 10 100)\<lparr>concurrency := Some 5\<rparr>)) None)))) = [None]"
  by (simp add: crawlController_def example_crawl_env_def example_crawl_request_def
      example_RegExp_error_def truthy_bool_def chunk_allowZDR_def chunk_flags_def
      chunk_forceZDR_def chunk_concurrency_def regex_paths_def crawl_maxConcurrency_def
      robots_step_def example_chunk_def Let_def)

section \<open>Theorems: document frames of the progress streamer\<close>

text \<open>
  When the result of \<open>getDoneJobsOrdered\<close> is assigned before the first run of \<open>loop\<close>,
  and every run reads a duplicate-free list of job ids, each job gets at most one document
  frame: \<open>loop\<close> skips the ids in \<open>doneJobIDs\<close> and appends every id it found completed
  or failed.
\<close>

lemma document_ids_append:
  "document_ids (xs @ ys) = document_ids xs @ document_ids ys"
  by (induction xs rule: document_ids.induct) simp_all

lemma send_documents_Nil: "send_documents [] s = s"
  by (simp add: send_documents_def)

lemma send_documents_Cons:
  "send_documents (p # jobs) s =
     send_documents jobs
       (case returnvalue (snd p) of Some d \<Rightarrow> send (DocumentMessage (fst p) d) s | None \<Rightarrow> s)"
  by (simp add: send_documents_def case_prod_beta)

lemma send_documents_keeps:
  "doneJobIDs (send_documents jobs s) = doneJobIDs s"
  by (induction jobs arbitrary: s)
    (simp_all add: send_documents_Nil send_documents_Cons send_def split: option.splits)

lemma send_documents_ids:
  "\<exists>ids. document_ids (sent (send_documents jobs s)) = document_ids (sent s) @ ids \<and>
         ids = map fst (filter (\<lambda>p. readyState s = 1 \<and> returnvalue (snd p) \<noteq> None) jobs)"
proof (induction jobs arbitrary: s)
  case Nil
  then show ?case by (simp add: send_documents_Nil)
next
  case (Cons p jobs)
  show ?case
  proof (cases "returnvalue (snd p)")
    case None
    with Cons [of s] show ?thesis by (simp add: send_documents_Cons)
  next
    case (Some d)
    with Cons [of "send (DocumentMessage (fst p) d) s"] show ?thesis
      by (auto simp: send_documents_Cons send_def document_ids_append)
  qed
qed

lemma map_fst_map_filter:
  "map fst (List.map_filter (\<lambda>x. map_option (Pair x) (g x)) xs) = filter (\<lambda>x. g x \<noteq> None) xs"
  by (induction xs) (auto simp: List.map_filter_simps split: option.splits)

lemma loop_once:
  assumes "distinct (getCrawlJobs r)"
    and "distinct (document_ids (sent s))"
    and "set (document_ids (sent s)) \<subseteq> set (doneJobIDs s)"
  shows "distinct (document_ids (sent (loop r s))) \<and>
         set (document_ids (sent (loop r s))) \<subseteq> set (doneJobIDs (loop r s))"
proof -
  let ?newly = "filter (\<lambda>x. getJobState r x = Completed \<or> getJobState r x = Failed)
                  (filter (\<lambda>x. x \<notin> set (doneJobIDs s)) (getCrawlJobs r))"
  let ?jobs = "List.map_filter (\<lambda>x. map_option (Pair x) (getJob r x)) ?newly"
  obtain ids where
    i: "document_ids (sent (send_documents ?jobs s)) = document_ids (sent s) @ ids"
    and d: "ids = map fst (filter (\<lambda>p. readyState s = 1 \<and> returnvalue (snd p) \<noteq> None) ?jobs)"
    using send_documents_ids by blast
  have n: "distinct ?newly" "set ?newly \<inter> set (doneJobIDs s) = {}"
    using assms(1) by auto
  have "distinct (map fst ?jobs)" "set (map fst ?jobs) \<subseteq> set ?newly"
    using assms(1) by (auto simp: map_fst_map_filter)
  then have "distinct ids" "set ids \<subseteq> set ?newly"
    unfolding d by (auto simp: distinct_map_filter)
  with n(2) assms(2,3) have
    "distinct (document_ids (sent s) @ ids)"
    "set (document_ids (sent s) @ ids) \<subseteq> set (doneJobIDs s @ ?newly)"
    by auto
  with assms(2,3) show ?thesis
    by (simp add: loop_def close_def Let_def i [symmetric] send_documents_keeps
        del: set_append distinct_append)
qed

lemma catchup_once:
  "document_ids (sent (catchup sc r s)) = document_ids (sent s) \<and>
   doneJobIDs (catchup sc r s) = doneJobIDs s"
  by (simp add: catchup_def send_def close_def Let_def document_ids_append)

lemma run_once:
  assumes "list_all settled es"
    and "distinct (document_ids (sent s))"
    and "set (document_ids (sent s)) \<subseteq> set (doneJobIDs s)"
  shows "distinct (document_ids (sent (run sc es s)))"
  using assms
proof (induction es arbitrary: s)
  case Nil
  then show ?case by simp
next
  case (Cons e es)
  show ?case
  proof (cases e)
    case (TimerFires r)
    with Cons.prems loop_once [of r s] Cons.IH [of "loop r s"] show ?thesis by simp
  next
    case (DoneJobsOrdered ids)
    with Cons.prems show ?thesis by simp
  next
    case (CatchupReady r)
    with Cons.prems catchup_once [of sc r s] Cons.IH [of "catchup sc r s"] show ?thesis by simp
  qed
qed

lemma documents_once_when_loaded_first:
  assumes "list_all settled es"
  shows "distinct (document_ids (sent
           (crawlStatusWS (Some sc) auth_team (DoneJobsOrdered ids # es))))"
  using run_once [OF assms, of "\<lparr>readyState = 1, sent = [], close_calls = [], doneJobIDs = ids,
      finished = False, timer = True\<rparr>" sc]
  by (auto simp: crawlStatusWS_def close_def Let_def)

text \<open>
  C9. The claim is that no job gets more than one document frame in a session. The timer
  of \<open>loop\<close> is armed before \<open>doneJobIDs\<close> is assigned the awaited result of
  \<open>getDoneJobsOrdered\<close>. When that result arrives only after the first run of \<open>loop\<close>,
  the assignment replaces the list the run has appended to: with jobs \<open>a\<close> (completed)
  and \<open>b\<close> (active), and a result that does not hold \<open>a\<close>, the next run sends the
  document of \<open>a\<close> a second time.
\<close>

theorem document_sent_twice:
  "document_ids (sent (crawlStatusWS (Some example_stored_crawl) ''team-1''
      [TimerFires example_poll, DoneJobsOrdered [], CatchupReady example_catchup,
       TimerFires example_poll])) = [''a'', ''a'']"
  by (simp add: crawlStatusWS_def example_stored_crawl_def example_poll_def example_catchup_def
      loop_def catchup_def validJobStatuses_def send_documents_def send_def close_def
      truthy_bool_def List.map_filter_def Let_def)

end
